theory Spec2Isabelle
  imports Main "HOL-Library.AList"
begin

section \<open>Python values and exceptions\<close>

text \<open>
  The module \<^verbatim>\<open>models.py\<close> works on dynamically typed values: the items of a
  maintenance window are strings (switch identifiers), dictionaries read from JSON
  (UNI and link descriptors) or kytos objects (UNI, Link). Exceptions drive the control
  flow of \<^verbatim>\<open>from_dict\<close> and \<^verbatim>\<open>update\<close>, so every raise is a value: \<open>Inl e\<close>.
  A constructor of \<open>exn\<close> stands for the class an \<^verbatim>\<open>except\<close> clause matches.
\<close>

datatype exn = KeyError | TypeError | AttributeError | ValueError | OtherError string

datatype pyval =
    PNone
  | PBool bool
  | PInt int
  | PStr string
  | PList "pyval list"
  | PDict "(pyval \<times> pyval) list"
  | PObj string
  | PTag pyval pyval
  | PUni pyval pyval
  | PLink pyval pyval "(pyval \<times> pyval) list"

text \<open>
  \<open>PDict\<close> is a dictionary, in insertion order; a lookup reads the first entry of a
  key, and the keys of a dictionary read from JSON are strings. \<open>PObj n\<close> is the kytos
  Interface whose \<^verbatim>\<open>id\<close> is \<open>n\<close>; \<open>PTag\<close> is a kytos TAG (type and value);
  \<open>PUni intf tag\<close> is \<^verbatim>\<open>UNI(intf, tag)\<close>, and \<open>PLink a b md\<close> is a kytos Link
  with its two endpoints and its metadata dictionary.
\<close>

text \<open>\<^verbatim>\<open>x[k]\<close> for a string key: only a dictionary can be subscripted by a string.\<close>

fun py_getitem :: "pyval \<Rightarrow> string \<Rightarrow> exn + pyval" where
  "py_getitem (PDict kvs) k =
     (case map_of kvs (PStr k) of None \<Rightarrow> Inl KeyError | Some v \<Rightarrow> Inr v)"
| "py_getitem _ k = Inl TypeError"

text \<open>Truth value of \<^verbatim>\<open>if x:\<close>. Objects without \<^verbatim>\<open>__bool__\<close> and \<^verbatim>\<open>__len__\<close> are true.\<close>

fun py_truthy :: "pyval \<Rightarrow> bool" where
  "py_truthy PNone = False"
| "py_truthy (PBool b) = b"
| "py_truthy (PInt i) = (i \<noteq> 0)"
| "py_truthy (PStr s) = (s \<noteq> [])"
| "py_truthy (PList xs) = (xs \<noteq> [])"
| "py_truthy (PDict kvs) = (kvs \<noteq> [])"
| "py_truthy (PObj n) = True"
| "py_truthy (PTag t v) = True"
| "py_truthy (PUni i t) = True"
| "py_truthy (PLink a b md) = True"

text \<open>
  \<^verbatim>\<open>for i in x\<close>: a list gives its elements, a string its characters, a dictionary its
  keys; anything else is not iterable.
\<close>

fun py_iter :: "pyval \<Rightarrow> exn + pyval list" where
  "py_iter (PList xs) = Inr xs"
| "py_iter (PStr s) = Inr (map (\<lambda>c. PStr [c]) s)"
| "py_iter (PDict kvs) = Inr (map fst kvs)"
| "py_iter _ = Inl TypeError"

text \<open>\<^verbatim>\<open>d.get(k)\<close> for a string key, on the entries of a dictionary.\<close>

definition py_get :: "(pyval \<times> pyval) list \<Rightarrow> string \<Rightarrow> pyval" where
  "py_get kvs k = (case map_of kvs (PStr k) of None \<Rightarrow> PNone | Some v \<Rightarrow> v)"

text \<open>
  The record that \<^verbatim>\<open>from_dict\<close> reads and the patch that \<^verbatim>\<open>update\<close> applies are
  dictionaries with string keys: \<^verbatim>\<open>d[k]\<close> and \<^verbatim>\<open>d.get(k)\<close> on such a \<open>d\<close>;
  \<^verbatim>\<open>k in d\<close> is \<open>map_of d k \<noteq> None\<close>.
\<close>

definition dict_getitem :: "(string \<times> pyval) list \<Rightarrow> string \<Rightarrow> exn + pyval" where
  "dict_getitem d k = (case map_of d k of None \<Rightarrow> Inl KeyError | Some v \<Rightarrow> Inr v)"

definition dict_get :: "(string \<times> pyval) list \<Rightarrow> string \<Rightarrow> pyval" where
  "dict_get d k = (case map_of d k of None \<Rightarrow> PNone | Some v \<Rightarrow> v)"

section \<open>The libraries the module calls\<close>

text \<open>
  A datetime is an instant, in microseconds since the epoch, with its UTC offset in
  seconds (\<open>None\<close> for a naive datetime). The format \<^verbatim>\<open>TIME_FMT\<close> has no field smaller
  than a second.
\<close>

datatype datetime = Datetime (instant_us: int) (utcoffset: "int option")

definition whole_seconds :: "datetime \<Rightarrow> int" where
  "whole_seconds d = instant_us d div 1000000"

text \<open>
  What the module calls and does not define is a parameter of the model:
  \<^item> \<open>strftime d\<close> is \<^verbatim>\<open>d.strftime(TIME_FMT)\<close>;
  \<^item> \<open>strptime_utc x\<close> is \<^verbatim>\<open>datetime.datetime.strptime(x, TIME_FMT).astimezone(pytz.utc)\<close>;
  \<^item> \<open>TAG_from_dict x\<close> is kytos' \<^verbatim>\<open>TAG.from_dict(x)\<close>;
  \<^item> \<open>Link_init a b\<close> is the check of kytos' \<^verbatim>\<open>Link(a, b)\<close> on its endpoints: the
    exception it raises, if any;
  \<^item> \<open>TAG_as_dict x\<close> is \<^verbatim>\<open>x.as_dict()\<close> for a kytos TAG \<open>x\<close>;
  \<^item> \<open>Interface_fields n\<close> is what \<^verbatim>\<open>as_dict()\<close> of the Interface \<open>n\<close> holds
    after its \<^verbatim>\<open>id\<close>;
  \<^item> \<open>Link_id a b\<close>, \<open>Link_is_active a b\<close> and \<open>Link_is_enabled a b\<close> are the
    \<^verbatim>\<open>id\<close>, \<^verbatim>\<open>is_active()\<close> and \<^verbatim>\<open>is_enabled()\<close> of the Link of \<open>a\<close> and \<open>b\<close>;
  \<^item> \<open>uuid4_hex\<close> is the value \<^verbatim>\<open>uuid4().hex\<close> returns;
  \<^item> \<open>str_of x\<close> is \<^verbatim>\<open>str(x)\<close> for a value that is not a string.
\<close>

record library =
  strftime :: "datetime \<Rightarrow> string"
  strptime_utc :: "pyval \<Rightarrow> exn + datetime"
  TAG_from_dict :: "pyval \<Rightarrow> exn + pyval"
  Link_init :: "pyval \<Rightarrow> pyval \<Rightarrow> exn option"
  TAG_as_dict :: "pyval \<Rightarrow> exn + pyval"
  Interface_fields :: "string \<Rightarrow> (pyval \<times> pyval) list"
  Link_id :: "pyval \<Rightarrow> pyval \<Rightarrow> pyval"
  Link_is_active :: "pyval \<Rightarrow> pyval \<Rightarrow> pyval"
  Link_is_enabled :: "pyval \<Rightarrow> pyval \<Rightarrow> pyval"
  uuid4_hex :: string
  str_of :: "pyval \<Rightarrow> string"

text \<open>The controller is used through one method, the topology lookup.\<close>

record controller =
  get_interface_by_id :: "pyval \<Rightarrow> exn + pyval"

text \<open>
  kytos' metadata methods of a Link, on its metadata dictionary.
  \<^verbatim>\<open>extend_metadata(x)\<close> is \<^verbatim>\<open>self.metadata.update(x)\<close>: a dictionary gives its
  entries; any other argument is iterated, and each element must be a sequence of a key
  that can be hashed and a value. An argument or an element that cannot be iterated, and a
  list or a dictionary as a key, raise TypeError; an element that has not two members
  raises ValueError. As keys, True and False are 1 and 0.
  \<^verbatim>\<open>get_metadata(k)\<close> is \<^verbatim>\<open>self.metadata.get(k)\<close>, and
  \<^verbatim>\<open>update_metadata(k, v)\<close> is \<^verbatim>\<open>self.metadata[k] = v\<close>.
\<close>

fun py_hashable :: "pyval \<Rightarrow> bool" where
  "py_hashable (PList xs) = False"
| "py_hashable (PDict kvs) = False"
| "py_hashable _ = True"

fun py_key :: "pyval \<Rightarrow> pyval" where
  "py_key (PBool b) = PInt (if b then 1 else 0)"
| "py_key k = k"

fun update_pairs :: "(pyval \<times> pyval) list \<Rightarrow> pyval list \<Rightarrow> exn + (pyval \<times> pyval) list" where
  "update_pairs md [] = Inr md"
| "update_pairs md (p # ps) =
     (case py_iter p of
        Inl e \<Rightarrow> Inl TypeError
      | Inr [k, v] \<Rightarrow>
          if py_hashable k then update_pairs (AList.update (py_key k) v md) ps
          else Inl TypeError
      | Inr ms \<Rightarrow> Inl ValueError)"

definition extend_metadata :: "(pyval \<times> pyval) list \<Rightarrow> pyval \<Rightarrow> exn + (pyval \<times> pyval) list" where
  "extend_metadata md x =
     (case x of
        PDict kvs \<Rightarrow> Inr (fold (\<lambda>kv m. AList.update (fst kv) (snd kv) m) kvs md)
      | _ \<Rightarrow>
          (case py_iter x of
             Inl e \<Rightarrow> Inl TypeError
           | Inr ps \<Rightarrow> update_pairs md ps))"

definition get_metadata :: "(pyval \<times> pyval) list \<Rightarrow> string \<Rightarrow> pyval" where
  "get_metadata md k = py_get md k"

definition update_metadata :: "(pyval \<times> pyval) list \<Rightarrow> string \<Rightarrow> pyval \<Rightarrow> (pyval \<times> pyval) list" where
  "update_metadata md k v = AList.update (PStr k) v md"

text \<open>\<^verbatim>\<open>hasattr(x, 'as_dict')\<close>: the kytos objects have the method, nothing else has.\<close>

fun has_as_dict :: "pyval \<Rightarrow> bool" where
  "has_as_dict (PObj n) = True"
| "has_as_dict (PTag t v) = True"
| "has_as_dict (PUni i t) = True"
| "has_as_dict (PLink a b md) = True"
| "has_as_dict _ = False"

text \<open>
  \<^verbatim>\<open>x.id\<close> and \<^verbatim>\<open>i.as_dict()\<close>. A string, number, list, dictionary or None has
  no such attribute. For the kytos objects:
  \<^item> an Interface gives its \<^verbatim>\<open>id\<close>, then its other fields;
  \<^item> a UNI gives
    \<^verbatim>\<open>{'interface_id': self.interface.id, 'tag': self.user_tag.as_dict()}\<close>;
  \<^item> a Link gives its \<^verbatim>\<open>id\<close>, \<^verbatim>\<open>endpoint_a.as_dict()\<close>,
    \<^verbatim>\<open>endpoint_b.as_dict()\<close>, its metadata with every value that has an
    \<^verbatim>\<open>as_dict\<close> method replaced by what the method returns
    (\<^verbatim>\<open>get_metadata_as_dict\<close>), \<^verbatim>\<open>is_active()\<close> and \<^verbatim>\<open>is_enabled()\<close>.
\<close>

fun py_attr_id :: "library \<Rightarrow> pyval \<Rightarrow> exn + pyval" where
  "py_attr_id L (PObj n) = Inr (PStr n)"
| "py_attr_id L (PLink a b md) = Inr (Link_id L a b)"
| "py_attr_id L _ = Inl AttributeError"

fun call_as_dict :: "library \<Rightarrow> pyval \<Rightarrow> exn + pyval"
  and metadata_as_dict :: "library \<Rightarrow> (pyval \<times> pyval) list \<Rightarrow> exn + (pyval \<times> pyval) list" where
  "call_as_dict L (PObj n) = Inr (PDict ((PStr ''id'', PStr n) # Interface_fields L n))"
| "call_as_dict L (PTag t v) = TAG_as_dict L (PTag t v)"
| "call_as_dict L (PUni i t) =
     (case py_attr_id L i of
        Inl e \<Rightarrow> Inl e
      | Inr iid \<Rightarrow>
          (case call_as_dict L t of
             Inl e \<Rightarrow> Inl e
           | Inr td \<Rightarrow> Inr (PDict [(PStr ''interface_id'', iid), (PStr ''tag'', td)])))"
| "call_as_dict L (PLink a b md) =
     (case call_as_dict L a of
        Inl e \<Rightarrow> Inl e
      | Inr ea \<Rightarrow>
     (case call_as_dict L b of
        Inl e \<Rightarrow> Inl e
      | Inr eb \<Rightarrow>
     (case metadata_as_dict L md of
        Inl e \<Rightarrow> Inl e
      | Inr mdd \<Rightarrow>
          Inr (PDict [(PStr ''id'', Link_id L a b),
                      (PStr ''endpoint_a'', ea),
                      (PStr ''endpoint_b'', eb),
                      (PStr ''metadata'', PDict mdd),
                      (PStr ''active'', Link_is_active L a b),
                      (PStr ''enabled'', Link_is_enabled L a b)]))))"
| "call_as_dict L PNone = Inl AttributeError"
| "call_as_dict L (PBool b) = Inl AttributeError"
| "call_as_dict L (PInt n) = Inl AttributeError"
| "call_as_dict L (PStr s) = Inl AttributeError"
| "call_as_dict L (PList xs) = Inl AttributeError"
| "call_as_dict L (PDict kvs) = Inl AttributeError"
| "metadata_as_dict L [] = Inr []"
| "metadata_as_dict L (kv # md) =
     (case (if has_as_dict (snd kv) then call_as_dict L (snd kv) else Inr (snd kv)) of
        Inl e \<Rightarrow> Inl e
      | Inr v \<Rightarrow>
          (case metadata_as_dict L md of
             Inl e \<Rightarrow> Inl e
           | Inr mdd \<Rightarrow> Inr ((fst kv, v) # mdd)))"

section \<open>MaintenanceWindow\<close>

record maintenance_window =
  mw_id :: pyval
  mw_start :: datetime
  mw_end :: datetime
  mw_items :: "pyval list"
  mw_controller :: controller

text \<open>\<^verbatim>\<open>__init__\<close>: no items means the empty list, a false \<^verbatim>\<open>mw_id\<close> a fresh identifier.\<close>

definition MaintenanceWindow_init ::
  "library \<Rightarrow> datetime \<Rightarrow> datetime \<Rightarrow> controller \<Rightarrow> pyval list option \<Rightarrow> pyval
   \<Rightarrow> maintenance_window" where
  "MaintenanceWindow_init L start end' c items mwid =
     \<lparr> mw_id = (if py_truthy mwid then mwid else PStr (uuid4_hex L)),
       mw_start = start,
       mw_end = end',
       mw_items = (case items of None \<Rightarrow> [] | Some xs \<Rightarrow> xs),
       mw_controller = c \<rparr>"

subsection \<open>Serialisation\<close>

text \<open>
  The loop of \<^verbatim>\<open>as_dict\<close>: \<^verbatim>\<open>i.as_dict()\<close>, and the item itself when that raises
  AttributeError or TypeError; any other exception leaves the method.
\<close>

fun as_dict_items :: "library \<Rightarrow> pyval list \<Rightarrow> pyval list \<Rightarrow> exn + pyval list" where
  "as_dict_items L [] acc = Inr acc"
| "as_dict_items L (i # rest) acc =
     (case call_as_dict L i of
        Inr d \<Rightarrow> as_dict_items L rest (acc @ [d])
      | Inl AttributeError \<Rightarrow> as_dict_items L rest (acc @ [i])
      | Inl TypeError \<Rightarrow> as_dict_items L rest (acc @ [i])
      | Inl e \<Rightarrow> Inl e)"

definition as_dict :: "library \<Rightarrow> maintenance_window \<Rightarrow> exn + (string \<times> pyval) list" where
  "as_dict L self =
     (case as_dict_items L (mw_items self) [] of
        Inl e \<Rightarrow> Inl e
      | Inr its \<Rightarrow>
          Inr [(''id'', mw_id self),
               (''start'', PStr (strftime L (mw_start self))),
               (''end'', PStr (strftime L (mw_end self))),
               (''items'', PList its)])"

subsection \<open>Building items from dictionaries\<close>

definition intf_from_dict :: "pyval \<Rightarrow> controller \<Rightarrow> exn + pyval" where
  "intf_from_dict intf_id c = get_interface_by_id c intf_id"

definition uni_from_dict :: "library \<Rightarrow> pyval \<Rightarrow> controller \<Rightarrow> exn + pyval" where
  "uni_from_dict L uni_dict c =
     (case py_getitem uni_dict ''interface_id'' of
        Inl e \<Rightarrow> Inl e
      | Inr iid \<Rightarrow>
     (case intf_from_dict iid c of
        Inl e \<Rightarrow> Inl e
      | Inr intf \<Rightarrow>
     (case py_getitem uni_dict ''tag'' of
        Inl e \<Rightarrow> Inl e
      | Inr t \<Rightarrow>
     (case TAG_from_dict L t of
        Inl e \<Rightarrow> Inl e
      | Inr tag \<Rightarrow>
          if py_truthy intf \<and> py_truthy tag then Inr (PUni intf tag) else Inr PNone))))"

text \<open>\<^verbatim>\<open>controller.get_interface_by_id(link_dict[key]['id'])\<close>\<close>

definition endpoint_from_dict :: "pyval \<Rightarrow> string \<Rightarrow> controller \<Rightarrow> exn + pyval" where
  "endpoint_from_dict link_dict key c =
     (case py_getitem link_dict key of
        Inl e \<Rightarrow> Inl e
      | Inr ep \<Rightarrow>
     (case py_getitem ep ''id'' of
        Inl e \<Rightarrow> Inl e
      | Inr epid \<Rightarrow> get_interface_by_id c epid))"

text \<open>The end of \<^verbatim>\<open>link_from_dict\<close>: an \<^verbatim>\<open>s_vlan\<close> entry of the metadata becomes a TAG.\<close>

definition link_s_vlan ::
  "library \<Rightarrow> pyval \<Rightarrow> pyval \<Rightarrow> (pyval \<times> pyval) list \<Rightarrow> exn + pyval" where
  "link_s_vlan L a b md =
     (let s_vlan = get_metadata md ''s_vlan'' in
      if py_truthy s_vlan then
        (case TAG_from_dict L s_vlan of
           Inl e \<Rightarrow> Inl e
         | Inr tag \<Rightarrow> Inr (PLink a b (update_metadata md ''s_vlan'' tag)))
      else Inr (PLink a b md))"

definition link_from_dict :: "library \<Rightarrow> pyval \<Rightarrow> controller \<Rightarrow> exn + pyval" where
  "link_from_dict L link_dict c =
     (case endpoint_from_dict link_dict ''endpoint_a'' c of
        Inl e \<Rightarrow> Inl e
      | Inr endpoint_a \<Rightarrow>
     (case endpoint_from_dict link_dict ''endpoint_b'' c of
        Inl e \<Rightarrow> Inl e
      | Inr endpoint_b \<Rightarrow>
     (case Link_init L endpoint_a endpoint_b of
        Some e \<Rightarrow> Inl e
      | None \<Rightarrow>
     (case py_getitem link_dict ''metadata'' of
        Inr m \<Rightarrow>
          (case extend_metadata [] m of
             Inl e \<Rightarrow> Inl e
           | Inr md \<Rightarrow> link_s_vlan L endpoint_a endpoint_b md)
      | Inl e \<Rightarrow> link_s_vlan L endpoint_a endpoint_b []))))"

text \<open>
  The \<^verbatim>\<open>try\<close> statement that \<^verbatim>\<open>from_dict\<close> and \<^verbatim>\<open>update\<close> both run on an item:
  \<^verbatim>\<open>
  try:
      item = cls.uni_from_dict(i, controller)
  except KeyError:
      item = cls.link_from_dict(i, controller)
  except TypeError:
      item = i
  \<close>
  An exception raised in a handler is not caught by the other handler.
\<close>

definition item_from_dict :: "library \<Rightarrow> pyval \<Rightarrow> controller \<Rightarrow> exn + pyval" where
  "item_from_dict L i c =
     (case uni_from_dict L i c of
        Inr item \<Rightarrow> Inr item
      | Inl KeyError \<Rightarrow> link_from_dict L i c
      | Inl TypeError \<Rightarrow> Inr i
      | Inl e \<Rightarrow> Inl e)"

subsection \<open>Deserialisation\<close>

text \<open>The loop of \<^verbatim>\<open>from_dict\<close>: an item that is None ends it with the result None.\<close>

fun from_dict_items ::
  "library \<Rightarrow> controller \<Rightarrow> pyval list \<Rightarrow> pyval list \<Rightarrow> exn + pyval list option" where
  "from_dict_items L c [] items = Inr (Some items)"
| "from_dict_items L c (i # rest) items =
     (case item_from_dict L i c of
        Inl e \<Rightarrow> Inl e
      | Inr item \<Rightarrow>
          if item = PNone then Inr None
          else from_dict_items L c rest (items @ [item]))"

definition from_dict ::
  "library \<Rightarrow> (string \<times> pyval) list \<Rightarrow> controller \<Rightarrow> exn + maintenance_window option" where
  "from_dict L mw_dict c =
     (let mwid = dict_get mw_dict ''id'' in
      case dict_getitem mw_dict ''start'' of
        Inl e \<Rightarrow> Inl e
      | Inr s \<Rightarrow>
     (case strptime_utc L s of
        Inl e \<Rightarrow> Inl e
      | Inr start \<Rightarrow>
     (case dict_getitem mw_dict ''end'' of
        Inl e \<Rightarrow> Inl e
      | Inr s' \<Rightarrow>
     (case strptime_utc L s' of
        Inl e \<Rightarrow> Inl e
      | Inr end' \<Rightarrow>
     (case dict_getitem mw_dict ''items'' of
        Inl e \<Rightarrow> Inl e
      | Inr its \<Rightarrow>
     (case py_iter its of
        Inl e \<Rightarrow> Inl e
      | Inr xs \<Rightarrow>
     (case from_dict_items L c xs [] of
        Inl e \<Rightarrow> Inl e
      | Inr None \<Rightarrow> Inr None
      | Inr (Some items) \<Rightarrow>
          Inr (Some (MaintenanceWindow_init L start end' c (Some items) mwid)))))))))"

subsection \<open>Partial update\<close>

text \<open>The loop of \<^verbatim>\<open>update\<close>: an item is appended when it is true (\<^verbatim>\<open>if item:\<close>).\<close>

fun update_items ::
  "library \<Rightarrow> controller \<Rightarrow> pyval list \<Rightarrow> pyval list \<Rightarrow> exn + pyval list" where
  "update_items L c [] items = Inr items"
| "update_items L c (i # rest) items =
     (case item_from_dict L i c of
        Inl e \<Rightarrow> Inl e
      | Inr item \<Rightarrow>
          update_items L c rest (if py_truthy item then items @ [item] else items))"

text \<open>
  \<^verbatim>\<open>update\<close> assigns the fields of \<^verbatim>\<open>self\<close> one after the other, so an exception
  leaves the object as the assignments before it made it: the result is the exception, if
  any, with the window as it is when the method is left.
\<close>

definition update_field_items ::
  "library \<Rightarrow> maintenance_window \<Rightarrow> (string \<times> pyval) list \<Rightarrow> controller
   \<Rightarrow> exn option \<times> maintenance_window" where
  "update_field_items L self mw_dict c =
     (case map_of mw_dict ''items'' of
        None \<Rightarrow> (None, self)
      | Some its \<Rightarrow>
     (case py_iter its of
        Inl e \<Rightarrow> (Some e, self)
      | Inr xs \<Rightarrow>
     (case update_items L c xs [] of
        Inl e \<Rightarrow> (Some e, self)
      | Inr items \<Rightarrow> (None, self\<lparr>mw_items := items\<rparr>))))"

definition update_field_end ::
  "library \<Rightarrow> maintenance_window \<Rightarrow> (string \<times> pyval) list \<Rightarrow> controller
   \<Rightarrow> exn option \<times> maintenance_window" where
  "update_field_end L self mw_dict c =
     (case map_of mw_dict ''end'' of
        None \<Rightarrow> update_field_items L self mw_dict c
      | Some s \<Rightarrow>
     (case strptime_utc L s of
        Inl e \<Rightarrow> (Some e, self)
      | Inr t \<Rightarrow> update_field_items L (self\<lparr>mw_end := t\<rparr>) mw_dict c))"

definition update ::
  "library \<Rightarrow> maintenance_window \<Rightarrow> (string \<times> pyval) list \<Rightarrow> controller
   \<Rightarrow> exn option \<times> maintenance_window" where
  "update L self mw_dict c =
     (case map_of mw_dict ''start'' of
        None \<Rightarrow> update_field_end L self mw_dict c
      | Some s \<Rightarrow>
     (case strptime_utc L s of
        Inl e \<Rightarrow> (Some e, self)
      | Inr t \<Rightarrow> update_field_end L (self\<lparr>mw_start := t\<rparr>) mw_dict c))"

subsection \<open>Lifecycle hooks\<close>

text \<open>
  An event on the controller's buffer: its name and its content. \<^verbatim>\<open>start_mw\<close> and
  \<^verbatim>\<open>end_mw\<close> are \<^verbatim>\<open>pass\<close>: they take the buffer and return it as it is.
\<close>

datatype kytos_event = KytosEvent (event_name: string) (event_content: "pyval list")

definition start_mw :: "maintenance_window \<Rightarrow> kytos_event list \<Rightarrow> kytos_event list" where
  "start_mw self buffer = buffer"

definition end_mw :: "maintenance_window \<Rightarrow> kytos_event list \<Rightarrow> kytos_event list" where
  "end_mw self buffer = buffer"

section \<open>Scheduler\<close>

text \<open>
  The class wraps APScheduler's \<^verbatim>\<open>BackgroundScheduler\<close>, started in \<^verbatim>\<open>__init__\<close>, with
  its default job store. Of the store the model keeps the jobs by identifier, in the order
  they were added. As APScheduler documents them: \<^verbatim>\<open>add_job\<close> without
  \<^verbatim>\<open>replace_existing=True\<close> raises \<^verbatim>\<open>ConflictingIdError\<close> when the store of a
  running scheduler already holds the identifier, and \<^verbatim>\<open>remove_job\<close> raises
  \<^verbatim>\<open>JobLookupError\<close> when it does not hold it.
\<close>

datatype sched_exn = JobLookupError string | ConflictingIdError string

datatype job_func = Start_mw maintenance_window | End_mw maintenance_window

record job =
  func :: job_func
  run_date :: datetime

record scheduler =
  jobs :: "(string \<times> job) list"
  log_info :: "string list"

definition has_job :: "scheduler \<Rightarrow> string \<Rightarrow> bool" where
  "has_job S job_id = (job_id \<in> set (map fst (jobs S)))"

definition add_job :: "scheduler \<Rightarrow> job_func \<Rightarrow> string \<Rightarrow> datetime \<Rightarrow> sched_exn + scheduler" where
  "add_job S f job_id d =
     (if has_job S job_id then Inl (ConflictingIdError job_id)
      else Inr (S\<lparr>jobs := jobs S @ [(job_id, \<lparr>func = f, run_date = d\<rparr>)]\<rparr>))"

definition remove_job :: "scheduler \<Rightarrow> string \<Rightarrow> sched_exn + scheduler" where
  "remove_job S job_id =
     (if has_job S job_id then Inr (S\<lparr>jobs := filter (\<lambda>kv. fst kv \<noteq> job_id) (jobs S)\<rparr>)
      else Inl (JobLookupError job_id))"

text \<open>\<^verbatim>\<open>f'{mw.id}'\<close>: a string is inserted as it is, any other value through \<^verbatim>\<open>str\<close>.\<close>

definition py_format :: "library \<Rightarrow> pyval \<Rightarrow> string" where
  "py_format L v = (case v of PStr s \<Rightarrow> s | _ \<Rightarrow> str_of L v)"

definition start_job_id :: "library \<Rightarrow> maintenance_window \<Rightarrow> string" where
  "start_job_id L mw = py_format L (mw_id mw) @ ''-start''"

definition end_job_id :: "library \<Rightarrow> maintenance_window \<Rightarrow> string" where
  "end_job_id L mw = py_format L (mw_id mw) @ ''-end''"

text \<open>
  \<^verbatim>\<open>Scheduler.add\<close>: two calls of \<^verbatim>\<open>add_job\<close>, no handler. The result is the
  exception, if any, with the scheduler as it is when the method is left.
\<close>

definition Scheduler_add ::
  "library \<Rightarrow> scheduler \<Rightarrow> maintenance_window \<Rightarrow> sched_exn option \<times> scheduler" where
  "Scheduler_add L S mw =
     (case add_job S (Start_mw mw) (start_job_id L mw) (mw_start mw) of
        Inl e \<Rightarrow> (Some e, S)
      | Inr S1 \<Rightarrow>
     (case add_job S1 (End_mw mw) (end_job_id L mw) (mw_end mw) of
        Inl e \<Rightarrow> (Some e, S1)
      | Inr S2 \<Rightarrow> (None, S2)))"

text \<open>
  One \<^verbatim>\<open>try\<close> statement of \<^verbatim>\<open>Scheduler.remove\<close>: \<^verbatim>\<open>JobLookupError\<close> is logged,
  any other exception leaves the method.
\<close>

definition remove_logged ::
  "scheduler \<Rightarrow> string \<Rightarrow> string \<Rightarrow> sched_exn option \<times> scheduler" where
  "remove_logged S job_id msg =
     (case remove_job S job_id of
        Inr S' \<Rightarrow> (None, S')
      | Inl (JobLookupError j) \<Rightarrow> (None, S\<lparr>log_info := log_info S @ [msg]\<rparr>)
      | Inl e \<Rightarrow> (Some e, S))"

definition Scheduler_remove ::
  "library \<Rightarrow> scheduler \<Rightarrow> maintenance_window \<Rightarrow> sched_exn option \<times> scheduler" where
  "Scheduler_remove L S mw =
     (case remove_logged S (start_job_id L mw)
             (''Job to start '' @ py_format L (mw_id mw) @ '' already removed.'') of
        (Some e, S1) \<Rightarrow> (Some e, S1)
      | (None, S1) \<Rightarrow>
          remove_logged S1 (end_job_id L mw)
            (''Job to end '' @ py_format L (mw_id mw) @ '' already removed.''))"

section \<open>A reference environment for the examples\<close>

text \<open>
  The examples below are evaluated in a fixed environment: a table of what the libraries
  return at the inputs the examples use. Three instants of 1 January 2020 (UTC), and one
  with a fraction of a second:
\<close>

definition t_0000 :: datetime where
  "t_0000 = Datetime 1577836800000000 (Some 0)"

definition t_0400 :: datetime where
  "t_0400 = Datetime 1577851200000000 (Some 0)"

definition t_0600 :: datetime where
  "t_0600 = Datetime 1577858400000000 (Some 0)"

definition t_0600_frac :: datetime where
  "t_0600_frac = Datetime 1577858400250000 (Some 0)"

text \<open>
  \<^verbatim>\<open>strftime\<close> on these instants (the fraction is not printed; the empty string stands
  for an instant outside the table), and \<^verbatim>\<open>strptime\<close>: TypeError for an argument that
  is not a string, ValueError for a string that does not match the format.
\<close>

definition ref_strftime :: "datetime \<Rightarrow> string" where
  "ref_strftime d =
     (if d = t_0000 then ''2020-01-01T00:00:00+0000''
      else if d = t_0400 then ''2020-01-01T04:00:00+0000''
      else if d = t_0600 \<or> d = t_0600_frac then ''2020-01-01T06:00:00+0000''
      else [])"

definition ref_strptime_utc :: "pyval \<Rightarrow> exn + datetime" where
  "ref_strptime_utc x =
     (case x of
        PStr s \<Rightarrow>
          if s = ''2020-01-01T00:00:00+0000'' then Inr t_0000
          else if s = ''2020-01-01T04:00:00+0000'' then Inr t_0400
          else if s = ''2020-01-01T06:00:00+0000'' then Inr t_0600
          else Inl ValueError
      | _ \<Rightarrow> Inl TypeError)"

text \<open>
  kytos: \<^verbatim>\<open>TAG.from_dict(d)\<close> is \<^verbatim>\<open>TAG(d.get('tag_type'), d.get('value'))\<close>, and
  \<^verbatim>\<open>as_dict()\<close> of a TAG is the dictionary of the two.
\<close>

definition ref_TAG_from_dict :: "pyval \<Rightarrow> exn + pyval" where
  "ref_TAG_from_dict x =
     (case x of
        PDict kvs \<Rightarrow> Inr (PTag (py_get kvs ''tag_type'') (py_get kvs ''value''))
      | _ \<Rightarrow> Inl AttributeError)"

definition ref_TAG_as_dict :: "pyval \<Rightarrow> exn + pyval" where
  "ref_TAG_as_dict x =
     (case x of
        PTag t v \<Rightarrow> Inr (PDict [(PStr ''tag_type'', t), (PStr ''value'', v)])
      | _ \<Rightarrow> Inl AttributeError)"

text \<open>
  The Link constructor raises \<^verbatim>\<open>KytosLinkCreationError\<close> for an endpoint that is
  None. Of the other fields of an Interface the table keeps its \<^verbatim>\<open>type\<close>; the
  \<^verbatim>\<open>id\<close> of a Link stands for the hash kytos computes from the endpoints. Every
  identifier of the examples is a string, so \<open>str_of\<close> is never reached there; it is set
  to the text of None.
\<close>

definition ref_Link_init :: "pyval \<Rightarrow> pyval \<Rightarrow> exn option" where
  "ref_Link_init a b =
     (if a = PNone \<or> b = PNone then Some (OtherError ''KytosLinkCreationError'') else None)"

definition ref_library :: library where
  "ref_library =
     \<lparr> strftime = ref_strftime,
       strptime_utc = ref_strptime_utc,
       TAG_from_dict = ref_TAG_from_dict,
       Link_init = ref_Link_init,
       TAG_as_dict = ref_TAG_as_dict,
       Interface_fields = (\<lambda>n. [(PStr ''type'', PStr ''interface'')]),
       Link_id = (\<lambda>a b. PStr ''4d42dc08522''),
       Link_is_active = (\<lambda>a b. PBool True),
       Link_is_enabled = (\<lambda>a b. PBool False),
       uuid4_hex = ''0123456789abcdef0123456789abcdef'',
       str_of = (\<lambda>v. ''None'') \<rparr>"

text \<open>
  A topology with the two interfaces of one switch: any other identifier is not found.
\<close>

definition ref_get_interface_by_id :: "pyval \<Rightarrow> exn + pyval" where
  "ref_get_interface_by_id x =
     (case x of
        PStr s \<Rightarrow>
          if s = ''00:00:00:00:00:00:00:01:1'' \<or> s = ''00:00:00:00:00:00:00:01:2''
          then Inr (PObj s) else Inr PNone
      | PNone \<Rightarrow> Inr PNone
      | _ \<Rightarrow> Inl AttributeError)"

definition ref_controller :: controller where
  "ref_controller = \<lparr> get_interface_by_id = ref_get_interface_by_id \<rparr>"

text \<open>The window of the module's tests: one switch, six hours.\<close>

definition ref_window :: maintenance_window where
  "ref_window =
     MaintenanceWindow_init ref_library t_0000 t_0600 ref_controller
       (Some [PStr ''SW1'']) (PStr ''mw1'')"

text \<open>
  A window of three items, a string, a UNI and a link with an \<^verbatim>\<open>s_vlan\<close> tag and
  one more entry in its metadata, whose end has a fraction of a second.
\<close>

definition ref_window_mixed :: maintenance_window where
  "ref_window_mixed =
     MaintenanceWindow_init ref_library t_0000 t_0600_frac ref_controller
       (Some [PStr ''SW1'',
              PUni (PObj ''00:00:00:00:00:00:00:01:1'') (PTag (PInt 1) (PInt 100)),
              PLink (PObj ''00:00:00:00:00:00:00:01:1'') (PObj ''00:00:00:00:00:00:00:01:2'')
                [(PStr ''s_vlan'', PTag (PInt 1) (PInt 200)), (PStr ''owner'', PStr ''noc'')]])
       (PStr ''mw3'')"

text \<open>A UNI descriptor and a link descriptor on a switch the topology does not have.\<close>

definition unknown_uni :: pyval where
  "unknown_uni =
     PDict [(PStr ''interface_id'', PStr ''00:00:00:00:00:00:00:09:1''),
            (PStr ''tag'', PDict [(PStr ''tag_type'', PInt 1), (PStr ''value'', PInt 100)])]"

definition unknown_link :: pyval where
  "unknown_link =
     PDict [(PStr ''endpoint_a'', PDict [(PStr ''id'', PStr ''00:00:00:00:00:00:00:09:1'')]),
            (PStr ''endpoint_b'', PDict [(PStr ''id'', PStr ''00:00:00:00:00:00:00:09:2'')])]"

text \<open>A scheduler that has just been created.\<close>

definition new_scheduler :: scheduler where
  "new_scheduler = \<lparr> jobs = [], log_info = [] \<rparr>"

section \<open>Notions used in the statements\<close>

definition is_dict :: "pyval \<Rightarrow> bool" where
  "is_dict x = (case x of PDict kvs \<Rightarrow> True | _ \<Rightarrow> False)"

text \<open>The timestamp under a key of a patch parses, or the patch has no such key.\<close>

definition field_parses :: "library \<Rightarrow> (string \<times> pyval) list \<Rightarrow> string \<Rightarrow> bool" where
  "field_parses L p k =
     (case map_of p k of
        None \<Rightarrow> True
      | Some s \<Rightarrow> (case strptime_utc L s of Inr t \<Rightarrow> True | Inl e \<Rightarrow> False))"

text \<open>
  A UNI descriptor whose interface the resolver does not find: it has an
  \<^verbatim>\<open>interface_id\<close> for which the lookup returns None, and a \<^verbatim>\<open>tag\<close> that
  \<^verbatim>\<open>TAG.from_dict\<close> accepts.
\<close>

definition unresolved_uni :: "library \<Rightarrow> controller \<Rightarrow> pyval \<Rightarrow> bool" where
  "unresolved_uni L c d =
     (case py_getitem d ''interface_id'' of
        Inl e \<Rightarrow> False
      | Inr iid \<Rightarrow>
          get_interface_by_id c iid = Inr PNone \<and>
          (case py_getitem d ''tag'' of
             Inl e \<Rightarrow> False
           | Inr td \<Rightarrow> (case TAG_from_dict L td of Inr tag \<Rightarrow> True | Inl e \<Rightarrow> False)))"

text \<open>What the loop of \<^verbatim>\<open>update\<close> keeps of an item: the item built from it, when true.\<close>

definition kept_item :: "library \<Rightarrow> controller \<Rightarrow> pyval \<Rightarrow> pyval option" where
  "kept_item L c i =
     (case item_from_dict L i c of
        Inr item \<Rightarrow> if py_truthy item then Some item else None
      | Inl e \<Rightarrow> None)"

text \<open>What the loop of \<^verbatim>\<open>as_dict\<close> appends for an item that raises nothing else.\<close>

definition serialized :: "library \<Rightarrow> pyval \<Rightarrow> pyval" where
  "serialized L i =
     (case call_as_dict L i of
        Inr d \<Rightarrow> d
      | Inl e \<Rightarrow> i)"

text \<open>
  The resolver still finds an interface: the lookup of its \<^verbatim>\<open>id\<close> returns it.
\<close>

definition resolves :: "controller \<Rightarrow> pyval \<Rightarrow> bool" where
  "resolves c i =
     (case i of
        PObj n \<Rightarrow> get_interface_by_id c (PStr n) = Inr (PObj n)
      | _ \<Rightarrow> False)"

text \<open>
  \<^verbatim>\<open>TAG.from_dict\<close> reads back what \<^verbatim>\<open>as_dict()\<close> of a TAG wrote (a property
  of kytos' TAG).
\<close>

definition tag_round_trips :: "library \<Rightarrow> pyval \<Rightarrow> bool" where
  "tag_round_trips L tag =
     (case tag of
        PTag t v \<Rightarrow>
          (case TAG_as_dict L tag of
             Inl e \<Rightarrow> False
           | Inr td \<Rightarrow> py_truthy td \<and> TAG_from_dict L td = Inr tag)
      | _ \<Rightarrow> False)"

text \<open>
  The metadata of a valid link: no key twice; under \<^verbatim>\<open>s_vlan\<close> a TAG that is read
  back, or a false value; under any other key a value that is not a kytos object.
\<close>

definition valid_metadata_entry :: "library \<Rightarrow> pyval \<times> pyval \<Rightarrow> bool" where
  "valid_metadata_entry L kv =
     (if fst kv = PStr ''s_vlan''
      then (if py_truthy (snd kv) then tag_round_trips L (snd kv) else True)
      else \<not> has_as_dict (snd kv))"

definition valid_metadata :: "library \<Rightarrow> (pyval \<times> pyval) list \<Rightarrow> bool" where
  "valid_metadata L md = (distinct (map fst md) \<and> list_all (valid_metadata_entry L) md)"

text \<open>
  The items of a valid window: a string token; a UNI of an interface that the resolver
  still finds and a TAG that is read back; a link of two interfaces that the resolver
  still finds and the Link constructor accepts, with valid metadata.
\<close>

fun valid_item :: "library \<Rightarrow> controller \<Rightarrow> pyval \<Rightarrow> bool" where
  "valid_item L c (PStr s) = True"
| "valid_item L c (PUni i t) = (resolves c i \<and> tag_round_trips L t)"
| "valid_item L c (PLink a b md) =
     (resolves c a \<and> resolves c b \<and> Link_init L a b = None \<and> valid_metadata L md)"
| "valid_item L c _ = False"

text \<open>What \<^verbatim>\<open>get_metadata_as_dict\<close> writes for an entry of the metadata.\<close>

definition serialized_entry :: "library \<Rightarrow> pyval \<times> pyval \<Rightarrow> pyval \<times> pyval" where
  "serialized_entry L kv = (fst kv, serialized L (snd kv))"

text \<open>Printing a datetime and parsing the text gives back the same second.\<close>

definition timestamp_round_trips :: "library \<Rightarrow> datetime \<Rightarrow> bool" where
  "timestamp_round_trips L d =
     (case strptime_utc L (PStr (strftime L d)) of
        Inl e \<Rightarrow> False
      | Inr d' \<Rightarrow> whole_seconds d' = whole_seconds d)"

text \<open>
  A valid window: its identifier is true (as \<^verbatim>\<open>__init__\<close> makes it), its items are
  valid, and its two timestamps print and parse.
\<close>

definition valid_window :: "library \<Rightarrow> controller \<Rightarrow> maintenance_window \<Rightarrow> bool" where
  "valid_window L c w =
     (py_truthy (mw_id w) \<and> list_all (valid_item L c) (mw_items w) \<and>
      timestamp_round_trips L (mw_start w) \<and> timestamp_round_trips L (mw_end w))"

section \<open>Evaluation of the reference environment\<close>

lemmas ref_defs = ref_library_def ref_controller_def ref_strptime_utc_def
  ref_strftime_def ref_TAG_from_dict_def ref_TAG_as_dict_def ref_Link_init_def
  ref_get_interface_by_id_def
  t_0000_def t_0400_def t_0600_def t_0600_frac_def

lemmas mw_defs = from_dict_def update_def update_field_end_def update_field_items_def
  item_from_dict_def uni_from_dict_def link_from_dict_def endpoint_from_dict_def
  intf_from_dict_def link_s_vlan_def get_metadata_def update_metadata_def extend_metadata_def
  dict_get_def dict_getitem_def py_get_def MaintenanceWindow_init_def

lemmas sched_defs = Scheduler_add_def Scheduler_remove_def remove_logged_def add_job_def
  remove_job_def has_job_def start_job_id_def end_job_id_def py_format_def new_scheduler_def

lemma ref_window_fields:
  "ref_window =
     \<lparr> mw_id = PStr ''mw1'', mw_start = t_0000, mw_end = t_0600,
       mw_items = [PStr ''SW1''], mw_controller = ref_controller \<rparr>"
  by (simp add: ref_window_def MaintenanceWindow_init_def)

text \<open>A window built by \<^verbatim>\<open>__init__\<close> has a true identifier.\<close>

lemma MaintenanceWindow_init_id:
  "uuid4_hex L \<noteq> [] \<Longrightarrow> py_truthy (mw_id (MaintenanceWindow_init L s e c items i))"
  by (simp add: MaintenanceWindow_init_def)

section \<open>The lifecycle hooks emit nothing\<close>

text \<open>
  Claim C1. \<^verbatim>\<open>start_mw\<close> should put one event per non-empty category of items on the
  buffer, and the module's tests expect one \<^verbatim>\<open>put\<close> for a window with one switch.
  The methods are \<^verbatim>\<open>pass\<close>: on the window of the tests, with the item \<^verbatim>\<open>SW1\<close> and an
  empty buffer, both leave the buffer empty.
\<close>

theorem start_mw_emits_nothing:
  "mw_items ref_window = [PStr ''SW1''] \<and>
   start_mw ref_window [] = [] \<and> end_mw ref_window [] = []"
  by (simp add: start_mw_def end_mw_def ref_window_fields)

section \<open>Items built from dictionaries\<close>

text \<open>An item that is not a dictionary raises TypeError in the first lookup and is kept.\<close>

lemma item_from_dict_not_dict: "\<not> is_dict i \<Longrightarrow> item_from_dict L i c = Inr i"
  by (cases i) (simp_all add: is_dict_def item_from_dict_def uni_from_dict_def)

text \<open>A UNI descriptor whose interface is not found gives None.\<close>

lemma item_from_dict_unresolved_uni:
  "unresolved_uni L c d \<Longrightarrow> item_from_dict L d c = Inr PNone"
  by (auto simp: unresolved_uni_def item_from_dict_def uni_from_dict_def intf_from_dict_def
      split: sum.splits)

text \<open>
  A dictionary with neither \<^verbatim>\<open>interface_id\<close> nor \<^verbatim>\<open>endpoint_a\<close>: the KeyError of
  the first lookup is handled by \<^verbatim>\<open>link_from_dict\<close>, whose own KeyError is not.
\<close>

lemma item_from_dict_no_keys:
  "map_of kvs (PStr ''interface_id'') = None \<Longrightarrow> map_of kvs (PStr ''endpoint_a'') = None \<Longrightarrow>
   item_from_dict L (PDict kvs) c = Inl KeyError"
  by (simp add: item_from_dict_def uni_from_dict_def link_from_dict_def endpoint_from_dict_def)

text \<open>\<^verbatim>\<open>link_from_dict\<close> returns a link or raises: it has no path that returns None.\<close>

lemma link_s_vlan_not_None: "link_s_vlan L a b md \<noteq> Inr PNone"
  by (simp add: link_s_vlan_def Let_def split: sum.splits)

lemma link_from_dict_not_None: "link_from_dict L d c \<noteq> Inr PNone"
  by (simp add: link_from_dict_def link_s_vlan_not_None split: sum.splits option.splits)

lemma link_from_dict_truthy: "link_from_dict L d c = Inr item \<Longrightarrow> py_truthy item"
  by (auto simp: link_from_dict_def link_s_vlan_def Let_def
      split: sum.splits option.splits if_splits)

lemma link_s_vlan_empty: "link_s_vlan L a b [] = Inr (PLink a b [])"
  by (simp add: link_s_vlan_def get_metadata_def py_get_def)

section \<open>The loop of update\<close>

lemma update_items_acc:
  "update_items L c xs acc =
     (case update_items L c xs [] of Inl e \<Rightarrow> Inl e | Inr r \<Rightarrow> Inr (acc @ r))"
proof (induction xs arbitrary: acc)
  case Nil
  then show ?case by simp
next
  case (Cons x xs)
  show ?case
  proof (cases "item_from_dict L x c")
    case (Inl e)
    then show ?thesis by simp
  next
    case (Inr item)
    show ?thesis
    proof (cases "py_truthy item")
      case True
      then show ?thesis
        using Cons.IH [of "acc @ [item]"] Cons.IH [of "[item]"] Inr
        by (simp split: sum.splits)
    next
      case False
      then show ?thesis
        using Cons.IH [of acc] Inr by simp
    qed
  qed
qed

lemma update_items_append:
  "update_items L c (xs @ ys) acc =
     (case update_items L c xs acc of Inl e \<Rightarrow> Inl e | Inr a \<Rightarrow> update_items L c ys a)"
  by (induction xs arbitrary: acc) (simp_all split: sum.splits)

lemma update_items_kept:
  "update_items L c xs acc = Inr r \<Longrightarrow> r = acc @ List.map_filter (kept_item L c) xs"
proof (induction xs arbitrary: acc)
  case Nil
  then show ?case by (simp add: List.map_filter_simps)
next
  case (Cons x xs)
  from Cons.prems obtain item where it: "item_from_dict L x c = Inr item"
    by (cases "item_from_dict L x c") simp_all
  with Cons.prems have
    "update_items L c xs (if py_truthy item then acc @ [item] else acc) = Inr r"
    by simp
  from Cons.IH [OF this] it show ?case
    by (simp add: List.map_filter_simps kept_item_def)
qed

lemma update_items_total:
  "\<forall>i \<in> set xs. \<exists>y. item_from_dict L i c = Inr y \<Longrightarrow>
   update_items L c xs acc = Inr (acc @ List.map_filter (kept_item L c) xs)"
  by (induction xs arbitrary: acc) (auto simp: List.map_filter_simps kept_item_def)

lemma kept_item_not_dict:
  "\<not> is_dict i \<Longrightarrow> kept_item L c i = (if py_truthy i then Some i else None)"
  by (simp add: kept_item_def item_from_dict_not_dict)

lemma map_filter_opaque:
  "\<forall>i \<in> set xs. \<not> is_dict i \<Longrightarrow>
   List.map_filter (kept_item L c) xs = filter py_truthy xs"
  by (induction xs) (simp_all add: List.map_filter_simps kept_item_not_dict)

lemma update_items_opaque:
  "\<forall>i \<in> set xs. \<not> is_dict i \<Longrightarrow> update_items L c xs [] = Inr (filter py_truthy xs)"
  using update_items_total [of xs L c "[]"]
  by (simp add: item_from_dict_not_dict map_filter_opaque)

text \<open>With timestamps that parse, \<^verbatim>\<open>update\<close> reaches the items of the patch.\<close>

lemma update_reaches_items:
  "field_parses L p ''start'' \<Longrightarrow> field_parses L p ''end'' \<Longrightarrow>
   fst (update L w p c) = fst (update_field_items L w p c) \<and>
   mw_items (snd (update L w p c)) = mw_items (snd (update_field_items L w p c))"
  by (auto simp: field_parses_def update_def update_field_end_def update_field_items_def
      split: option.splits sum.splits)

lemma update_returns_items:
  "fst (update L w p c) = None \<Longrightarrow> map_of p ''items'' = Some v \<Longrightarrow>
   \<exists>xs. py_iter v = Inr xs \<and> update_items L c xs [] = Inr (mw_items (snd (update L w p c)))"
  by (auto simp: update_def update_field_end_def update_field_items_def
      split: option.splits sum.splits)

section \<open>The loop of deserialisation\<close>

lemma from_dict_items_opaque:
  "\<forall>i \<in> set xs. \<not> is_dict i \<Longrightarrow> PNone \<notin> set xs \<Longrightarrow>
   from_dict_items L c xs acc = Inr (Some (acc @ xs))"
  by (induction xs arbitrary: acc) (auto simp: item_from_dict_not_dict)

lemma from_dict_items_none:
  "\<forall>x \<in> set pre. \<exists>y. item_from_dict L x c = Inr y \<Longrightarrow>
   item_from_dict L d c = Inr PNone \<Longrightarrow>
   from_dict_items L c (pre @ d # post) acc = Inr None"
  by (induction pre arbitrary: acc) auto

section \<open>Serialising and deserialising a window\<close>

text \<open>
  \<^verbatim>\<open>{}.update(d)\<close> with a dictionary gives the entries of the dictionary.
\<close>

lemma update_fresh_key:
  "k \<notin> fst ` set acc \<Longrightarrow> AList.update k v acc = acc @ [(k, v)]"
  by (induction acc) auto

lemma fold_update_fresh:
  "distinct (map fst xs) \<Longrightarrow> fst ` set xs \<inter> fst ` set acc = {} \<Longrightarrow>
   fold (\<lambda>kv m. AList.update (fst kv) (snd kv) m) xs acc = acc @ xs"
proof (induction xs arbitrary: acc)
  case Nil
  then show ?case by simp
next
  case (Cons x xs)
  from Cons.prems have fresh: "fst x \<notin> fst ` set acc" by auto
  from Cons.prems have "distinct (map fst xs)"
    and "fst ` set xs \<inter> fst ` set (acc @ [x]) = {}"
    by auto
  from Cons.IH [OF this] fresh show ?case
    by (simp add: update_fresh_key)
qed

lemma extend_metadata_dict:
  "distinct (map fst kvs) \<Longrightarrow> extend_metadata [] (PDict kvs) = Inr kvs"
  using fold_update_fresh [of kvs "[]"] by (simp add: extend_metadata_def)

text \<open>
  The metadata of a valid link is written entry by entry, and \<^verbatim>\<open>link_from_dict\<close>
  rebuilds it: only an \<^verbatim>\<open>s_vlan\<close> TAG was changed, and it is read back in place.
\<close>

lemma call_as_dict_no_method: "\<not> has_as_dict v \<Longrightarrow> call_as_dict L v = Inl AttributeError"
  by (cases v) simp_all

lemma serialized_no_method: "\<not> has_as_dict v \<Longrightarrow> serialized L v = v"
  by (simp add: serialized_def call_as_dict_no_method)

lemma falsy_no_method: "\<not> py_truthy v \<Longrightarrow> \<not> has_as_dict v"
  by (cases v) simp_all

lemma tag_round_trips_D:
  "tag_round_trips L tag \<Longrightarrow>
   \<exists>td. call_as_dict L tag = Inr td \<and> serialized L tag = td \<and> py_truthy td \<and>
     TAG_from_dict L td = Inr tag \<and> py_truthy tag \<and> has_as_dict tag"
  by (cases tag) (auto simp: tag_round_trips_def serialized_def split: sum.splits)

lemma fst_serialized_entry: "fst (serialized_entry L kv) = fst kv"
  by (simp add: serialized_entry_def)

lemma valid_entry_serialized:
  "valid_metadata_entry L kv \<Longrightarrow>
   (if has_as_dict (snd kv) then call_as_dict L (snd kv) else Inr (snd kv)) =
     Inr (serialized L (snd kv))"
proof (cases "has_as_dict (snd kv)")
  case False
  then show ?thesis by (simp add: serialized_no_method)
next
  case True
  assume v: "valid_metadata_entry L kv"
  from True have "py_truthy (snd kv)" using falsy_no_method by blast
  with v True have "tag_round_trips L (snd kv)"
    by (simp add: valid_metadata_entry_def split: if_splits)
  from tag_round_trips_D [OF this] True show ?thesis by auto
qed

lemma metadata_as_dict_valid:
  "list_all (valid_metadata_entry L) md \<Longrightarrow>
   metadata_as_dict L md = Inr (map (serialized_entry L) md)"
proof (induction md)
  case Nil
  then show ?case by simp
next
  case (Cons kv md)
  then have v: "valid_metadata_entry L kv"
    and IH: "metadata_as_dict L md = Inr (map (serialized_entry L) md)"
    by simp_all
  from valid_entry_serialized [OF v] IH show ?case
    by (simp add: serialized_entry_def)
qed

lemma serialized_entry_other:
  "valid_metadata_entry L kv \<Longrightarrow> fst kv \<noteq> PStr ''s_vlan'' \<Longrightarrow> serialized_entry L kv = kv"
  by (simp add: valid_metadata_entry_def serialized_entry_def serialized_no_method)

lemma serialized_entry_falsy:
  "\<not> py_truthy (snd kv) \<Longrightarrow> serialized_entry L kv = kv"
  by (simp add: serialized_entry_def serialized_no_method falsy_no_method)

lemma map_serialized_other:
  "list_all (valid_metadata_entry L) md \<Longrightarrow> PStr ''s_vlan'' \<notin> fst ` set md \<Longrightarrow>
   map (serialized_entry L) md = md"
  by (induction md) (auto simp: serialized_entry_other)

lemma update_serialized:
  "list_all (valid_metadata_entry L) md \<Longrightarrow> distinct (map fst md) \<Longrightarrow>
   map_of md (PStr ''s_vlan'') = Some v \<Longrightarrow>
   AList.update (PStr ''s_vlan'') v (map (serialized_entry L) md) = md"
proof (induction md)
  case Nil
  then show ?case by simp
next
  case (Cons kv md)
  show ?case
  proof (cases "fst kv = PStr ''s_vlan''")
    case True
    with Cons.prems have "snd kv = v" and "PStr ''s_vlan'' \<notin> fst ` set md"
      and "list_all (valid_metadata_entry L) md"
      by auto
    with map_serialized_other [of L md] have "map (serialized_entry L) md = md" by simp
    moreover from True \<open>snd kv = v\<close> have "kv = (PStr ''s_vlan'', v)"
      by (cases kv) simp
    ultimately show ?thesis
      using fst_serialized_entry [of L kv] by (cases "serialized_entry L kv") simp
  next
    case False
    with Cons.prems have "map_of md (PStr ''s_vlan'') = Some v"
      and "list_all (valid_metadata_entry L) md" and "distinct (map fst md)"
      and "valid_metadata_entry L kv"
      by (auto split: if_splits)
    with False Cons.IH serialized_entry_other [of L kv] show ?thesis
      by (cases kv) simp
  qed
qed

lemma map_of_serialized:
  "map_of (map (serialized_entry L) md) k = map_option (serialized L) (map_of md k)"
  by (induction md) (auto simp: serialized_entry_def)

lemma link_s_vlan_valid:
  assumes "valid_metadata L md"
  shows "link_s_vlan L a b (map (serialized_entry L) md) = Inr (PLink a b md)"
proof -
  from assms have va: "list_all (valid_metadata_entry L) md" and di: "distinct (map fst md)"
    by (simp_all add: valid_metadata_def)
  show ?thesis
  proof (cases "map_of md (PStr ''s_vlan'')")
    case None
    then have "PStr ''s_vlan'' \<notin> fst ` set md" by (simp add: map_of_eq_None_iff)
    from map_serialized_other [OF va this] None show ?thesis
      by (simp add: link_s_vlan_def get_metadata_def py_get_def)
  next
    case (Some v)
    then have mem: "(PStr ''s_vlan'', v) \<in> set md" by (rule map_of_SomeD)
    with va have ve: "valid_metadata_entry L (PStr ''s_vlan'', v)"
      by (auto simp: list_all_iff)
    show ?thesis
    proof (cases "py_truthy v")
      case True
      with ve have "tag_round_trips L v" by (simp add: valid_metadata_entry_def)
      from tag_round_trips_D [OF this] obtain td where
        td: "serialized L v = td" "py_truthy td" "TAG_from_dict L td = Inr v"
        by blast
      with Some update_serialized [OF va di Some] show ?thesis
        by (simp add: link_s_vlan_def get_metadata_def py_get_def map_of_serialized
            update_metadata_def)
    next
      case False
      have "map (serialized_entry L) md = md"
      proof (rule map_idI)
        fix kv assume kv: "kv \<in> set md"
        with va have vkv: "valid_metadata_entry L kv" by (auto simp: list_all_iff)
        show "serialized_entry L kv = kv"
        proof (cases "fst kv = PStr ''s_vlan''")
          case True
          from kv have "(fst kv, snd kv) \<in> set md" by simp
          from map_of_is_SomeI [OF di this] True Some have "snd kv = v" by simp
          with False show ?thesis by (simp add: serialized_entry_falsy)
        next
          case False
          with vkv show ?thesis by (rule serialized_entry_other)
        qed
      qed
      with Some False show ?thesis
        by (simp add: link_s_vlan_def get_metadata_def py_get_def)
    qed
  qed
qed

text \<open>A valid item is built again from what \<^verbatim>\<open>as_dict\<close> appends for it.\<close>

lemma valid_item_round_trip:
  "valid_item L c i \<Longrightarrow>
   item_from_dict L (serialized L i) c = Inr i \<and> i \<noteq> PNone \<and>
   (case call_as_dict L i of
      Inr d \<Rightarrow> True | Inl AttributeError \<Rightarrow> True | Inl TypeError \<Rightarrow> True | Inl e \<Rightarrow> False)"
proof (cases i)
  case (PStr s)
  then show ?thesis
    by (simp add: serialized_def item_from_dict_def uni_from_dict_def)
next
  case (PUni intf tag)
  assume "valid_item L c i"
  with PUni have r: "resolves c intf" and t: "tag_round_trips L tag" by simp_all
  from r obtain n where n: "intf = PObj n" "get_interface_by_id c (PStr n) = Inr (PObj n)"
    by (cases intf) (simp_all add: resolves_def)
  from tag_round_trips_D [OF t] obtain td where
    td: "call_as_dict L tag = Inr td" "TAG_from_dict L td = Inr tag" "py_truthy tag"
    by blast
  from PUni n td show ?thesis
    by (simp add: serialized_def item_from_dict_def uni_from_dict_def intf_from_dict_def)
next
  case (PLink a b md)
  assume "valid_item L c i"
  with PLink have ra: "resolves c a" and rb: "resolves c b"
    and li: "Link_init L a b = None" and vm: "valid_metadata L md"
    by simp_all
  from ra obtain na where na: "a = PObj na" "get_interface_by_id c (PStr na) = Inr (PObj na)"
    by (cases a) (simp_all add: resolves_def)
  from rb obtain nb where nb: "b = PObj nb" "get_interface_by_id c (PStr nb) = Inr (PObj nb)"
    by (cases b) (simp_all add: resolves_def)
  from vm have md: "metadata_as_dict L md = Inr (map (serialized_entry L) md)"
    by (simp add: valid_metadata_def metadata_as_dict_valid)
  from vm have di: "distinct (map fst (map (serialized_entry L) md))"
    by (simp add: valid_metadata_def serialized_entry_def comp_def)
  from PLink na nb md li extend_metadata_dict [OF di] link_s_vlan_valid [OF vm, of a b]
  show ?thesis
    by (simp add: serialized_def item_from_dict_def uni_from_dict_def link_from_dict_def
        endpoint_from_dict_def)
qed simp_all

lemma as_dict_items_valid:
  "list_all (valid_item L c) xs \<Longrightarrow>
   as_dict_items L xs acc = Inr (acc @ map (serialized L) xs)"
proof (induction xs arbitrary: acc)
  case Nil
  then show ?case by simp
next
  case (Cons x xs)
  then have v: "valid_item L c x"
    and IH: "\<And>acc. as_dict_items L xs acc = Inr (acc @ map (serialized L) xs)"
    by simp_all
  from valid_item_round_trip [OF v] show ?case
    by (auto simp: IH serialized_def split: sum.splits exn.splits)
qed

lemma from_dict_items_valid:
  "list_all (valid_item L c) xs \<Longrightarrow>
   from_dict_items L c (map (serialized L) xs) acc = Inr (Some (acc @ xs))"
proof (induction xs arbitrary: acc)
  case Nil
  then show ?case by simp
next
  case (Cons x xs)
  then have v: "valid_item L c x"
    and IH: "\<And>acc. from_dict_items L c (map (serialized L) xs) acc = Inr (Some (acc @ xs))"
    by simp_all
  from valid_item_round_trip [OF v] show ?case
    by (simp add: IH)
qed

text \<open>
  Claim C2. For every valid window \<open>w\<close>, \<^verbatim>\<open>as_dict\<close> returns a dictionary from
  which \<^verbatim>\<open>from_dict\<close>, with the same resolver, builds a window with the identifier
  and the items of \<open>w\<close>, and with a start and an end in the same second as those of
  \<open>w\<close>.
\<close>

theorem from_dict_as_dict:
  assumes "valid_window L c w"
  shows "\<exists>d w'. as_dict L w = Inr d \<and> from_dict L d c = Inr (Some w') \<and>
     mw_id w' = mw_id w \<and> mw_items w' = mw_items w \<and>
     whole_seconds (mw_start w') = whole_seconds (mw_start w) \<and>
     whole_seconds (mw_end w') = whole_seconds (mw_end w) \<and>
     mw_controller w' = c"
proof -
  from assms have idt: "py_truthy (mw_id w)"
    and its: "list_all (valid_item L c) (mw_items w)"
    and ts: "timestamp_round_trips L (mw_start w)"
    and te: "timestamp_round_trips L (mw_end w)"
    by (simp_all add: valid_window_def)
  from ts obtain t1 where t1: "strptime_utc L (PStr (strftime L (mw_start w))) = Inr t1"
    and t1s: "whole_seconds t1 = whole_seconds (mw_start w)"
    by (auto simp: timestamp_round_trips_def split: sum.splits)
  from te obtain t2 where t2: "strptime_utc L (PStr (strftime L (mw_end w))) = Inr t2"
    and t2s: "whole_seconds t2 = whole_seconds (mw_end w)"
    by (auto simp: timestamp_round_trips_def split: sum.splits)
  let ?d = "[(''id'', mw_id w), (''start'', PStr (strftime L (mw_start w))),
      (''end'', PStr (strftime L (mw_end w))),
      (''items'', PList (map (serialized L) (mw_items w)))]"
  have a: "as_dict L w = Inr ?d"
    using as_dict_items_valid [OF its, of "[]"] by (simp add: as_dict_def)
  have f: "from_dict L ?d c =
      Inr (Some (MaintenanceWindow_init L t1 t2 c (Some (mw_items w)) (mw_id w)))"
    using from_dict_items_valid [OF its, of "[]"] t1 t2
    by (simp add: from_dict_def dict_getitem_def dict_get_def)
  from a f idt t1s t2s show ?thesis
    by (simp add: MaintenanceWindow_init_def)
qed

text \<open>
  The window of three items is valid; its dictionary is the one below, and the window
  read back differs in the fraction of a second of the end alone.
\<close>

theorem from_dict_as_dict_witness:
  "valid_window ref_library ref_controller ref_window_mixed \<and>
   (\<exists>d. as_dict ref_library ref_window_mixed = Inr d \<and>
        from_dict ref_library d ref_controller =
          Inr (Some (ref_window_mixed\<lparr>mw_end := t_0600\<rparr>))) \<and>
   mw_end ref_window_mixed = t_0600_frac \<and>
   whole_seconds t_0600 = whole_seconds t_0600_frac"
proof -
  have v: "valid_window ref_library ref_controller ref_window_mixed"
    by (simp add: valid_window_def ref_window_mixed_def MaintenanceWindow_init_def
        timestamp_round_trips_def whole_seconds_def resolves_def tag_round_trips_def
        valid_metadata_def valid_metadata_entry_def py_get_def ref_defs)
  from from_dict_as_dict [OF v] obtain d w' where
    d: "as_dict ref_library ref_window_mixed = Inr d"
    and w': "from_dict ref_library d ref_controller = Inr (Some w')"
    by blast
  have "as_dict ref_library ref_window_mixed =
    Inr [(''id'', PStr ''mw3''), (''start'', PStr ''2020-01-01T00:00:00+0000''),
         (''end'', PStr ''2020-01-01T06:00:00+0000''),
         (''items'', PList [PStr ''SW1'',
            PDict [(PStr ''interface_id'', PStr ''00:00:00:00:00:00:00:01:1''),
                   (PStr ''tag'',
                    PDict [(PStr ''tag_type'', PInt 1), (PStr ''value'', PInt 100)])],
            PDict [(PStr ''id'', PStr ''4d42dc08522''),
                   (PStr ''endpoint_a'',
                    PDict [(PStr ''id'', PStr ''00:00:00:00:00:00:00:01:1''),
                           (PStr ''type'', PStr ''interface'')]),
                   (PStr ''endpoint_b'',
                    PDict [(PStr ''id'', PStr ''00:00:00:00:00:00:00:01:2''),
                           (PStr ''type'', PStr ''interface'')]),
                   (PStr ''metadata'',
                    PDict [(PStr ''s_vlan'',
                            PDict [(PStr ''tag_type'', PInt 1), (PStr ''value'', PInt 200)]),
                           (PStr ''owner'', PStr ''noc'')]),
                   (PStr ''active'', PBool True),
                   (PStr ''enabled'', PBool False)]])]"
    by (simp add: as_dict_def ref_window_mixed_def MaintenanceWindow_init_def ref_defs)
  with d w' have "from_dict ref_library d ref_controller =
      Inr (Some (ref_window_mixed\<lparr>mw_end := t_0600\<rparr>))"
    by (simp add: ref_window_mixed_def ref_defs mw_defs)
  with d v show ?thesis
    by (auto simp: ref_window_mixed_def MaintenanceWindow_init_def whole_seconds_def
        t_0600_def t_0600_frac_def)
qed

section \<open>Descriptors the resolver does not find\<close>

subsection \<open>UNI descriptors\<close>

text \<open>
  \<^verbatim>\<open>uni_from_dict\<close> checks what the resolver returned and gives None when the
  interface is not found. For every record whose timestamps parse and whose items are a
  list with such a descriptor, after items that are built without an exception,
  \<^verbatim>\<open>from_dict\<close> returns None.
\<close>

lemma from_dict_unresolved_uni:
  assumes "dict_getitem r ''start'' = Inr s" and "strptime_utc L s = Inr t1"
    and "dict_getitem r ''end'' = Inr s'" and "strptime_utc L s' = Inr t2"
    and "dict_getitem r ''items'' = Inr (PList (pre @ d # post))"
    and "\<forall>x \<in> set pre. \<exists>y. item_from_dict L x c = Inr y"
    and "unresolved_uni L c d"
  shows "from_dict L r c = Inr None"
proof -
  have "item_from_dict L d c = Inr PNone"
    using assms(7) by (rule item_from_dict_unresolved_uni)
  from from_dict_items_none [OF assms(6) this]
  have "from_dict_items L c (pre @ d # post) [] = Inr None" .
  with assms(1-5) show ?thesis
    by (simp add: from_dict_def)
qed

lemma from_dict_unresolved_uni_example:
  "unresolved_uni ref_library ref_controller unknown_uni \<and>
   item_from_dict ref_library (PStr ''SW1'') ref_controller = Inr (PStr ''SW1'') \<and>
   from_dict ref_library
     [(''id'', PStr ''mw1''), (''start'', PStr ''2020-01-01T00:00:00+0000''),
      (''end'', PStr ''2020-01-01T06:00:00+0000''),
      (''items'', PList ([PStr ''SW1''] @ unknown_uni # [PStr ''SW2'']))] ref_controller =
     Inr None"
proof -
  have u: "unresolved_uni ref_library ref_controller unknown_uni"
    by (simp add: unresolved_uni_def unknown_uni_def ref_defs)
  have a: "item_from_dict ref_library (PStr ''SW1'') ref_controller = Inr (PStr ''SW1'')"
    by (simp add: item_from_dict_def uni_from_dict_def)
  then have pre:
    "\<forall>x \<in> set [PStr ''SW1'']. \<exists>y. item_from_dict ref_library x ref_controller = Inr y"
    by simp
  let ?r = "[(''id'', PStr ''mw1''), (''start'', PStr ''2020-01-01T00:00:00+0000''),
      (''end'', PStr ''2020-01-01T06:00:00+0000''),
      (''items'', PList ([PStr ''SW1''] @ unknown_uni # [PStr ''SW2'']))]"
  have s1: "dict_getitem ?r ''start'' = Inr (PStr ''2020-01-01T00:00:00+0000'')"
    by (simp add: dict_getitem_def)
  have p1: "strptime_utc ref_library (PStr ''2020-01-01T00:00:00+0000'') = Inr t_0000"
    by (simp add: ref_library_def ref_strptime_utc_def)
  have s2: "dict_getitem ?r ''end'' = Inr (PStr ''2020-01-01T06:00:00+0000'')"
    by (simp add: dict_getitem_def)
  have p2: "strptime_utc ref_library (PStr ''2020-01-01T06:00:00+0000'') = Inr t_0600"
    by (simp add: ref_library_def ref_strptime_utc_def)
  have its: "dict_getitem ?r ''items'' =
      Inr (PList ([PStr ''SW1''] @ unknown_uni # [PStr ''SW2'']))"
    by (simp add: dict_getitem_def)
  from from_dict_unresolved_uni [OF s1 p1 s2 p2 its pre u] u a
  show ?thesis by simp
qed

text \<open>
  For every patch whose timestamps parse and whose items are a list with such a
  descriptor, between items that \<^verbatim>\<open>update\<close> builds without an exception,
  \<^verbatim>\<open>update\<close> returns, and the items of the window are those the items before and
  after the descriptor give: the descriptor adds nothing.
\<close>

lemma update_drops_unresolved_uni:
  assumes "map_of p ''items'' = Some (PList (pre @ d # post))"
    and "field_parses L p ''start''" and "field_parses L p ''end''"
    and "unresolved_uni L c d"
    and "update_items L c pre [] = Inr ys" and "update_items L c post [] = Inr zs"
  shows "fst (update L w p c) = None \<and> mw_items (snd (update L w p c)) = ys @ zs"
proof -
  have d: "item_from_dict L d c = Inr PNone"
    using assms(4) by (rule item_from_dict_unresolved_uni)
  have "update_items L c (pre @ d # post) [] = Inr (ys @ zs)"
    using assms(5,6) d update_items_acc [of L c post ys]
    by (simp add: update_items_append)
  then show ?thesis
    using assms(1,2,3) by (simp add: update_reaches_items update_field_items_def)
qed

lemma update_drops_unresolved_uni_example:
  "unresolved_uni ref_library ref_controller unknown_uni \<and>
   field_parses ref_library
     [(''items'', PList ([PStr ''SW1''] @ unknown_uni # [PStr ''SW2'']))] ''start'' \<and>
   field_parses ref_library
     [(''items'', PList ([PStr ''SW1''] @ unknown_uni # [PStr ''SW2'']))] ''end'' \<and>
   update_items ref_library ref_controller [PStr ''SW1''] [] = Inr [PStr ''SW1''] \<and>
   update_items ref_library ref_controller [PStr ''SW2''] [] = Inr [PStr ''SW2''] \<and>
   fst (update ref_library ref_window
     [(''items'', PList ([PStr ''SW1''] @ unknown_uni # [PStr ''SW2'']))] ref_controller) =
     None \<and>
   mw_items (snd (update ref_library ref_window
     [(''items'', PList ([PStr ''SW1''] @ unknown_uni # [PStr ''SW2'']))] ref_controller)) =
     [PStr ''SW1'', PStr ''SW2'']"
proof -
  have u: "unresolved_uni ref_library ref_controller unknown_uni"
    by (simp add: unresolved_uni_def unknown_uni_def ref_defs)
  have f1: "field_parses ref_library
      [(''items'', PList ([PStr ''SW1''] @ unknown_uni # [PStr ''SW2'']))] ''start''"
    by (simp add: field_parses_def)
  have f2: "field_parses ref_library
      [(''items'', PList ([PStr ''SW1''] @ unknown_uni # [PStr ''SW2'']))] ''end''"
    by (simp add: field_parses_def)
  have a: "update_items ref_library ref_controller [PStr ''SW1''] [] = Inr [PStr ''SW1'']"
    by (simp add: item_from_dict_def uni_from_dict_def)
  have b: "update_items ref_library ref_controller [PStr ''SW2''] [] = Inr [PStr ''SW2'']"
    by (simp add: item_from_dict_def uni_from_dict_def)
  have m: "map_of [(''items'', PList ([PStr ''SW1''] @ unknown_uni # [PStr ''SW2'']))]
      ''items'' = Some (PList ([PStr ''SW1''] @ unknown_uni # [PStr ''SW2'']))"
    by simp
  from update_drops_unresolved_uni [OF m f1 f2 u a b, of ref_window] u f1 f2 a b
  show ?thesis by simp
qed

subsection \<open>Link descriptors\<close>

text \<open>
  The endpoints of the link descriptor of the examples are not found: both lookups return
  None.
\<close>

lemma unknown_link_endpoints:
  "endpoint_from_dict unknown_link ''endpoint_a'' ref_controller = Inr PNone \<and>
   endpoint_from_dict unknown_link ''endpoint_b'' ref_controller = Inr PNone"
  by (simp add: unknown_link_def endpoint_from_dict_def ref_defs)

text \<open>
  Claim C3. A record whose items hold a descriptor that the resolver does not find should
  make \<^verbatim>\<open>from_dict\<close> return None, and for a UNI descriptor it does. For a link
  descriptor it does not: \<^verbatim>\<open>link_from_dict\<close> has no check of what the resolver
  returned and no path that returns None, whatever the libraries do, so the test
  \<^verbatim>\<open>item is None\<close> of \<^verbatim>\<open>from_dict\<close> never holds for a link. On the record below
  the two None endpoints reach the Link constructor, and its error leaves
  \<^verbatim>\<open>from_dict\<close>.
\<close>

theorem from_dict_unresolved_link:
  "link_from_dict L d c \<noteq> Inr PNone \<and>
   from_dict ref_library
     [(''id'', PStr ''mw1''), (''start'', PStr ''2020-01-01T00:00:00+0000''),
      (''end'', PStr ''2020-01-01T06:00:00+0000''),
      (''items'', PList [unknown_link])] ref_controller =
     Inl (OtherError ''KytosLinkCreationError'')"
proof
  show "link_from_dict L d c \<noteq> Inr PNone"
    by (rule link_from_dict_not_None)
next
  show "from_dict ref_library
     [(''id'', PStr ''mw1''), (''start'', PStr ''2020-01-01T00:00:00+0000''),
      (''end'', PStr ''2020-01-01T06:00:00+0000''),
      (''items'', PList [unknown_link])] ref_controller =
     Inl (OtherError ''KytosLinkCreationError'')"
    by (simp add: mw_defs ref_defs unknown_link_def)
qed

text \<open>
  Claim C4. A patch whose items hold a descriptor that the resolver does not find should
  make \<^verbatim>\<open>update\<close> leave that item out, keep the others and return, and for a UNI
  descriptor it does. For a link descriptor it does not: what \<^verbatim>\<open>link_from_dict\<close>
  returns is a Link, which is true, so \<^verbatim>\<open>if item:\<close> never drops a link. On the
  patch below the two None endpoints reach the Link constructor, its error leaves
  \<^verbatim>\<open>update\<close>, and the window keeps the items it had: \<^verbatim>\<open>SW2\<close> is not stored.
\<close>

theorem update_unresolved_link:
  "(case link_from_dict L d c of Inr item \<Rightarrow> py_truthy item | Inl e \<Rightarrow> True) \<and>
   update ref_library ref_window [(''items'', PList [unknown_link, PStr ''SW2''])]
     ref_controller =
     (Some (OtherError ''KytosLinkCreationError''), ref_window) \<and>
   mw_items ref_window = [PStr ''SW1'']"
proof (intro conjI)
  show "case link_from_dict L d c of Inr item \<Rightarrow> py_truthy item | Inl e \<Rightarrow> True"
    by (simp add: link_from_dict_truthy split: sum.splits)
next
  show "update ref_library ref_window [(''items'', PList [unknown_link, PStr ''SW2''])]
     ref_controller =
     (Some (OtherError ''KytosLinkCreationError''), ref_window)"
    by (simp add: mw_defs ref_defs unknown_link_def)
next
  show "mw_items ref_window = [PStr ''SW1'']"
    by (simp add: ref_window_fields)
qed

section \<open>Items that are not descriptors\<close>

text \<open>
  Claim C5, as amended. For every list of items none of which is a dictionary (string
  tokens in particular), no item raises: each is built as itself; \<^verbatim>\<open>from_dict\<close>, on a
  record whose timestamps parse, returns the window with these very items when None is
  not among them; and \<^verbatim>\<open>update\<close>, on a patch whose timestamps parse, returns and sets
  the items to those of the list that are true.
\<close>

theorem opaque_items_pass_through:
  assumes "\<forall>i \<in> set xs. \<not> is_dict i"
  shows
   "(\<forall>i \<in> set xs. item_from_dict L i c = Inr i) \<and>
    (PNone \<notin> set xs \<longrightarrow>
     dict_getitem r ''start'' = Inr s \<longrightarrow> strptime_utc L s = Inr t1 \<longrightarrow>
     dict_getitem r ''end'' = Inr s' \<longrightarrow> strptime_utc L s' = Inr t2 \<longrightarrow>
     dict_getitem r ''items'' = Inr (PList xs) \<longrightarrow>
     from_dict L r c =
       Inr (Some (MaintenanceWindow_init L t1 t2 c (Some xs) (dict_get r ''id'')))) \<and>
    (field_parses L p ''start'' \<longrightarrow> field_parses L p ''end'' \<longrightarrow>
     map_of p ''items'' = Some (PList xs) \<longrightarrow>
     fst (update L w p c) = None \<and>
     mw_items (snd (update L w p c)) = filter py_truthy xs)"
proof (intro conjI)
  show "\<forall>i \<in> set xs. item_from_dict L i c = Inr i"
    using assms by (simp add: item_from_dict_not_dict)
next
  show "PNone \<notin> set xs \<longrightarrow>
     dict_getitem r ''start'' = Inr s \<longrightarrow> strptime_utc L s = Inr t1 \<longrightarrow>
     dict_getitem r ''end'' = Inr s' \<longrightarrow> strptime_utc L s' = Inr t2 \<longrightarrow>
     dict_getitem r ''items'' = Inr (PList xs) \<longrightarrow>
     from_dict L r c =
       Inr (Some (MaintenanceWindow_init L t1 t2 c (Some xs) (dict_get r ''id'')))"
    using assms by (simp add: from_dict_def from_dict_items_opaque)
next
  show "field_parses L p ''start'' \<longrightarrow> field_parses L p ''end'' \<longrightarrow>
     map_of p ''items'' = Some (PList xs) \<longrightarrow>
     fst (update L w p c) = None \<and>
     mw_items (snd (update L w p c)) = filter py_truthy xs"
    using assms
    by (simp add: update_reaches_items update_field_items_def update_items_opaque)
qed

theorem opaque_items_pass_through_witness:
  "\<not> is_dict (PStr ''SW1'') \<and> \<not> is_dict (PInt 7) \<and>
   from_dict ref_library
     [(''id'', PStr ''mw1''), (''start'', PStr ''2020-01-01T00:00:00+0000''),
      (''end'', PStr ''2020-01-01T06:00:00+0000''),
      (''items'', PList [PStr ''SW1'', PInt 7])] ref_controller =
     Inr (Some \<lparr> mw_id = PStr ''mw1'', mw_start = t_0000, mw_end = t_0600,
       mw_items = [PStr ''SW1'', PInt 7], mw_controller = ref_controller \<rparr>) \<and>
   update ref_library ref_window [(''items'', PList [PStr ''SW1'', PInt 7])] ref_controller =
     (None, ref_window\<lparr>mw_items := [PStr ''SW1'', PInt 7]\<rparr>)"
  using opaque_items_pass_through [of "[PStr ''SW1'', PInt 7]" ref_library ref_controller]
  by (simp add: is_dict_def mw_defs ref_defs)

text \<open>
  The claim as it was stated fails for a dictionary that has neither key: both methods
  raise KeyError, and \<^verbatim>\<open>update\<close> leaves the window as it was.
\<close>

theorem malformed_dict_raises:
  "from_dict ref_library
     [(''id'', PStr ''mw1''), (''start'', PStr ''2020-01-01T00:00:00+0000''),
      (''end'', PStr ''2020-01-01T06:00:00+0000''),
      (''items'', PList [PDict [(PStr ''name'', PStr ''SW1'')]])] ref_controller =
     Inl KeyError \<and>
   update ref_library ref_window
     [(''items'', PList [PDict [(PStr ''name'', PStr ''SW1'')]])]
     ref_controller = (Some KeyError, ref_window)"
  by (simp add: mw_defs ref_defs)

section \<open>Timestamps that do not parse\<close>

text \<open>
  Claim C8, as amended. For every patch with a \<^verbatim>\<open>start\<close> that does not parse,
  \<^verbatim>\<open>update\<close> raises the parser's exception and the window is unchanged. For every
  patch with an \<^verbatim>\<open>end\<close> that does not parse, and a \<^verbatim>\<open>start\<close> that parses or is
  absent, \<^verbatim>\<open>update\<close> raises the parser's exception, and the identifier, the end and
  the items are unchanged; the start is the parsed \<^verbatim>\<open>start\<close> of the patch when the
  patch has one, and unchanged otherwise.
\<close>

theorem update_invalid_timestamp:
  "(map_of p ''start'' = Some s \<longrightarrow> strptime_utc L s = Inl e \<longrightarrow>
      update L w p c = (Some e, w)) \<and>
   (field_parses L p ''start'' \<longrightarrow> map_of p ''end'' = Some s \<longrightarrow> strptime_utc L s = Inl e \<longrightarrow>
      fst (update L w p c) = Some e \<and>
      mw_id (snd (update L w p c)) = mw_id w \<and>
      mw_end (snd (update L w p c)) = mw_end w \<and>
      mw_items (snd (update L w p c)) = mw_items w \<and>
      mw_start (snd (update L w p c)) =
        (case map_of p ''start'' of
           None \<Rightarrow> mw_start w
         | Some s0 \<Rightarrow> (case strptime_utc L s0 of Inr t \<Rightarrow> t | Inl e0 \<Rightarrow> mw_start w)))"
  by (auto simp: update_def update_field_end_def field_parses_def
      split: option.splits sum.splits)

theorem update_invalid_timestamp_witness:
  "map_of [(''start'', PStr ''tomorrow'')] ''start'' = Some (PStr ''tomorrow'') \<and>
   strptime_utc ref_library (PStr ''tomorrow'') = Inl ValueError \<and>
   update ref_library ref_window [(''start'', PStr ''tomorrow'')] ref_controller =
     (Some ValueError, ref_window) \<and>
   field_parses ref_library [(''end'', PStr ''tomorrow''), (''items'', PList [])] ''start'' \<and>
   update ref_library ref_window [(''end'', PStr ''tomorrow''), (''items'', PList [])]
     ref_controller = (Some ValueError, ref_window)"
  using update_invalid_timestamp [of "[(''start'', PStr ''tomorrow'')]" "PStr ''tomorrow''"
      ref_library ValueError ref_window ref_controller]
    update_invalid_timestamp [of "[(''end'', PStr ''tomorrow''), (''items'', PList [])]"
      "PStr ''tomorrow''" ref_library ValueError ref_window ref_controller]
  by (simp add: mw_defs ref_defs field_parses_def)

text \<open>
  The claim as it was stated fails for a patch with a \<^verbatim>\<open>start\<close> that parses and an
  \<^verbatim>\<open>end\<close> that does not: \<^verbatim>\<open>update\<close> raises ValueError after it has moved the start
  of the window from 00:00 to 04:00.
\<close>

theorem update_invalid_end_changes_start:
  "update ref_library ref_window
     [(''start'', PStr ''2020-01-01T04:00:00+0000''), (''end'', PStr ''tomorrow'')]
     ref_controller = (Some ValueError, ref_window\<lparr>mw_start := t_0400\<rparr>) \<and>
   mw_start ref_window = t_0000 \<and> t_0400 \<noteq> t_0000"
  by (simp add: mw_defs ref_defs ref_window_fields)

section \<open>What update leaves alone\<close>

lemma update_field_items_frame:
  "mw_id (snd (update_field_items L w p c)) = mw_id w"
  "mw_start (snd (update_field_items L w p c)) = mw_start w"
  "mw_end (snd (update_field_items L w p c)) = mw_end w"
  "mw_controller (snd (update_field_items L w p c)) = mw_controller w"
  "map_of p ''items'' = None \<Longrightarrow> update_field_items L w p c = (None, w)"
  by (simp_all add: update_field_items_def split: option.splits sum.splits)

lemma update_field_end_frame:
  "mw_id (snd (update_field_end L w p c)) = mw_id w"
  "mw_start (snd (update_field_end L w p c)) = mw_start w"
  "mw_controller (snd (update_field_end L w p c)) = mw_controller w"
  "map_of p ''end'' = None \<Longrightarrow> mw_end (snd (update_field_end L w p c)) = mw_end w"
  "map_of p ''items'' = None \<Longrightarrow> mw_items (snd (update_field_end L w p c)) = mw_items w"
  by (simp_all add: update_field_end_def update_field_items_frame
      split: option.splits sum.splits)

text \<open>
  Claim C9. Whatever the patch, and whether \<^verbatim>\<open>update\<close> returns or raises, the window
  keeps its \<^verbatim>\<open>id\<close> (and its controller), and each of \<^verbatim>\<open>start\<close>, \<^verbatim>\<open>end\<close> and
  \<^verbatim>\<open>items\<close> that is not a key of the patch keeps its value.
\<close>

theorem update_frame:
  "mw_id (snd (update L w p c)) = mw_id w \<and>
   mw_controller (snd (update L w p c)) = mw_controller w \<and>
   (map_of p ''start'' = None \<longrightarrow> mw_start (snd (update L w p c)) = mw_start w) \<and>
   (map_of p ''end'' = None \<longrightarrow> mw_end (snd (update L w p c)) = mw_end w) \<and>
   (map_of p ''items'' = None \<longrightarrow> mw_items (snd (update L w p c)) = mw_items w)"
  by (simp add: update_def update_field_end_frame split: option.splits sum.splits)

text \<open>
  A patch with \<^verbatim>\<open>start\<close> alone, on the window of the tests: the start moves to 04:00,
  the identifier, the end and the items stay.
\<close>

theorem update_frame_witness:
  "map_of [(''start'', PStr ''2020-01-01T04:00:00+0000'')] ''end'' = None \<and>
   map_of [(''start'', PStr ''2020-01-01T04:00:00+0000'')] ''items'' = None \<and>
   update ref_library ref_window [(''start'', PStr ''2020-01-01T04:00:00+0000'')]
     ref_controller = (None, ref_window\<lparr>mw_start := t_0400\<rparr>) \<and>
   mw_id (snd (update ref_library ref_window
     [(''start'', PStr ''2020-01-01T04:00:00+0000'')] ref_controller)) = PStr ''mw1'' \<and>
   mw_end (snd (update ref_library ref_window
     [(''start'', PStr ''2020-01-01T04:00:00+0000'')] ref_controller)) = t_0600 \<and>
   mw_items (snd (update ref_library ref_window
     [(''start'', PStr ''2020-01-01T04:00:00+0000'')] ref_controller)) = [PStr ''SW1'']"
  using update_frame [of ref_library ref_window
      "[(''start'', PStr ''2020-01-01T04:00:00+0000'')]" ref_controller]
  by (simp add: ref_window_fields update_def update_field_end_def update_field_items_def
      ref_library_def ref_strptime_utc_def)

section \<open>Items that are false\<close>

text \<open>
  Claim C10. The empty string is a well-formed item: it is built as itself, and
  \<^verbatim>\<open>from_dict\<close> keeps it. \<^verbatim>\<open>update\<close> keeps of an item what is built from it only
  when that is true: for every patch with a list of items on which \<^verbatim>\<open>update\<close>
  returns, the items of the window are the true ones among those built, in order, so the
  empty string is not among them.
\<close>

theorem update_filters_by_truth:
  "item_from_dict L (PStr []) c = Inr (PStr []) \<and>
   from_dict_items L c [PStr []] [] = Inr (Some [PStr []]) \<and>
   kept_item L c (PStr []) = None \<and>
   (map_of p ''items'' = Some (PList xs) \<longrightarrow> fst (update L w p c) = None \<longrightarrow>
      mw_items (snd (update L w p c)) = List.map_filter (kept_item L c) xs \<and>
      PStr [] \<notin> set (mw_items (snd (update L w p c))) \<and>
      (\<forall>x \<in> set (mw_items (snd (update L w p c))). py_truthy x))"
proof -
  have tok: "item_from_dict L (PStr []) c = Inr (PStr [])"
    by (simp add: item_from_dict_not_dict is_dict_def)
  have main: "map_of p ''items'' = Some (PList xs) \<longrightarrow> fst (update L w p c) = None \<longrightarrow>
      mw_items (snd (update L w p c)) = List.map_filter (kept_item L c) xs \<and>
      PStr [] \<notin> set (mw_items (snd (update L w p c))) \<and>
      (\<forall>x \<in> set (mw_items (snd (update L w p c))). py_truthy x)"
  proof (intro impI)
    assume its: "map_of p ''items'' = Some (PList xs)" and ok: "fst (update L w p c) = None"
    from update_returns_items [OF ok its]
    have "update_items L c xs [] = Inr (mw_items (snd (update L w p c)))" by simp
    from update_items_kept [OF this]
    have eq: "mw_items (snd (update L w p c)) = List.map_filter (kept_item L c) xs" by simp
    have tr: "\<forall>x \<in> set (List.map_filter (kept_item L c) xs). py_truthy x"
      by (auto simp: List.map_filter_def kept_item_def split: sum.splits if_splits)
    then have "PStr [] \<notin> set (List.map_filter (kept_item L c) xs)" by auto
    with eq tr show "mw_items (snd (update L w p c)) = List.map_filter (kept_item L c) xs \<and>
      PStr [] \<notin> set (mw_items (snd (update L w p c))) \<and>
      (\<forall>x \<in> set (mw_items (snd (update L w p c))). py_truthy x)" by simp
  qed
  have kept: "kept_item L c (PStr []) = None"
    using tok by (simp add: kept_item_def)
  have fd: "from_dict_items L c [PStr []] [] = Inr (Some [PStr []])"
    using tok by simp
  from tok fd kept main show ?thesis by blast
qed

text \<open>A patch with the empty string and \<^verbatim>\<open>SW2\<close>: the window gets \<^verbatim>\<open>SW2\<close> alone.\<close>

theorem update_filters_by_truth_witness:
  "map_of [(''items'', PList [PStr [], PStr ''SW2''])] ''items'' =
     Some (PList [PStr [], PStr ''SW2'']) \<and>
   update ref_library ref_window [(''items'', PList [PStr [], PStr ''SW2''])] ref_controller =
     (None, ref_window\<lparr>mw_items := [PStr ''SW2'']\<rparr>) \<and>
   List.map_filter (kept_item ref_library ref_controller) [PStr [], PStr ''SW2''] =
     [PStr ''SW2'']"
  using update_filters_by_truth [of ref_library ref_controller
      "[(''items'', PList [PStr [], PStr ''SW2''])]" "[PStr [], PStr ''SW2'']" ref_window]
  by (simp add: mw_defs ref_defs ref_window_fields kept_item_def List.map_filter_simps)

section \<open>The jobs of a window\<close>

lemma job_ids_differ: "start_job_id L mw \<noteq> end_job_id L mw"
  by (simp add: start_job_id_def end_job_id_def)

subsection \<open>Removing them\<close>

lemma remove_logged_jobs:
  "fst (remove_logged S j msg) = None \<and>
   jobs (snd (remove_logged S j msg)) = filter (\<lambda>kv. fst kv \<noteq> j) (jobs S)"
proof (cases "has_job S j")
  case True
  then show ?thesis by (simp add: remove_logged_def remove_job_def)
next
  case False
  then have "filter (\<lambda>kv. fst kv \<noteq> j) (jobs S) = jobs S"
    by (auto simp: has_job_def filter_id_conv)
  with False show ?thesis by (simp add: remove_logged_def remove_job_def)
qed

lemma Scheduler_remove_jobs:
  "fst (Scheduler_remove L S mw) = None \<and>
   jobs (snd (Scheduler_remove L S mw)) =
     filter (\<lambda>kv. fst kv \<noteq> start_job_id L mw \<and> fst kv \<noteq> end_job_id L mw) (jobs S)"
proof -
  obtain S1 where r1: "remove_logged S (start_job_id L mw)
      (''Job to start '' @ py_format L (mw_id mw) @ '' already removed.'') = (None, S1)"
    using remove_logged_jobs [of S "start_job_id L mw"] by (metis prod.collapse)
  have j1: "jobs S1 = filter (\<lambda>kv. fst kv \<noteq> start_job_id L mw) (jobs S)"
    using remove_logged_jobs [of S "start_job_id L mw"
        "''Job to start '' @ py_format L (mw_id mw) @ '' already removed.''"] r1 by simp
  have "Scheduler_remove L S mw = remove_logged S1 (end_job_id L mw)
      (''Job to end '' @ py_format L (mw_id mw) @ '' already removed.'')"
    using r1 by (simp add: Scheduler_remove_def)
  with j1 remove_logged_jobs [of S1 "end_job_id L mw"] show ?thesis
    by (simp add: conj_commute)
qed

text \<open>
  Claim C6. For every scheduler and window, \<^verbatim>\<open>Scheduler.remove\<close> raises nothing, and
  the jobs it leaves are those of the scheduler under any other name than
  \<^verbatim>\<open>{id}-start\<close> and \<^verbatim>\<open>{id}-end\<close>: each of the two is removed when it is there,
  whether the other is there or not. A second call raises nothing either and leaves the
  jobs as the first did.
\<close>

theorem Scheduler_remove_idempotent:
  "fst (Scheduler_remove L S mw) = None \<and>
   jobs (snd (Scheduler_remove L S mw)) =
     filter (\<lambda>kv. fst kv \<noteq> start_job_id L mw \<and> fst kv \<noteq> end_job_id L mw) (jobs S) \<and>
   fst (Scheduler_remove L (snd (Scheduler_remove L S mw)) mw) = None \<and>
   jobs (snd (Scheduler_remove L (snd (Scheduler_remove L S mw)) mw)) =
     jobs (snd (Scheduler_remove L S mw))"
  by (simp add: Scheduler_remove_jobs)

text \<open>
  A scheduler whose start job has fired: the first call logs that the start job is gone
  and removes the end job, the second logs both.
\<close>

theorem Scheduler_remove_idempotent_witness:
  "Scheduler_remove ref_library
     \<lparr> jobs = [(''mw1-end'', \<lparr>func = End_mw ref_window, run_date = t_0600\<rparr>)],
       log_info = [] \<rparr> ref_window =
     (None, \<lparr> jobs = [], log_info = [''Job to start mw1 already removed.''] \<rparr>) \<and>
   Scheduler_remove ref_library
     \<lparr> jobs = [], log_info = [''Job to start mw1 already removed.''] \<rparr> ref_window =
     (None, \<lparr> jobs = [], log_info = [''Job to start mw1 already removed.'',
        ''Job to start mw1 already removed.'', ''Job to end mw1 already removed.''] \<rparr>)"
  using Scheduler_remove_idempotent [of ref_library
      "\<lparr> jobs = [(''mw1-end'', \<lparr>func = End_mw ref_window, run_date = t_0600\<rparr>)],
         log_info = [] \<rparr>" ref_window]
  by (simp add: sched_defs ref_window_fields)

subsection \<open>Adding them\<close>

lemma add_job_simps:
  "has_job S j \<Longrightarrow> add_job S f j d = Inl (ConflictingIdError j)"
  "\<not> has_job S j \<Longrightarrow>
     add_job S f j d = Inr (S\<lparr>jobs := jobs S @ [(j, \<lparr>func = f, run_date = d\<rparr>)]\<rparr>)"
  by (simp_all add: add_job_def)

lemma has_job_append:
  "has_job (S\<lparr>jobs := jobs S @ [(j, x)]\<rparr>) n = (has_job S n \<or> n = j)"
  by (auto simp: has_job_def)

lemma Scheduler_add_fresh:
  "\<not> has_job S (start_job_id L mw) \<Longrightarrow> \<not> has_job S (end_job_id L mw) \<Longrightarrow>
   Scheduler_add L S mw =
     (None, S\<lparr>jobs := jobs S @
        [(start_job_id L mw, \<lparr>func = Start_mw mw, run_date = mw_start mw\<rparr>),
         (end_job_id L mw, \<lparr>func = End_mw mw, run_date = mw_end mw\<rparr>)]\<rparr>)"
  using job_ids_differ [of L mw]
  by (simp add: Scheduler_add_def add_job_simps has_job_append)

lemma Scheduler_add_start_conflict:
  "has_job S (start_job_id L mw) \<Longrightarrow>
   Scheduler_add L S mw = (Some (ConflictingIdError (start_job_id L mw)), S)"
  by (simp add: Scheduler_add_def add_job_simps)

lemma Scheduler_add_end_conflict:
  "\<not> has_job S (start_job_id L mw) \<Longrightarrow> has_job S (end_job_id L mw) \<Longrightarrow>
   Scheduler_add L S mw =
     (Some (ConflictingIdError (end_job_id L mw)),
      S\<lparr>jobs := jobs S @
        [(start_job_id L mw, \<lparr>func = Start_mw mw, run_date = mw_start mw\<rparr>)]\<rparr>)"
  by (simp add: Scheduler_add_def add_job_simps has_job_append)

lemma Scheduler_add_cases:
  "jobs (snd (Scheduler_add L S mw)) = jobs S \<or>
   (\<not> has_job S (start_job_id L mw) \<and>
    (jobs (snd (Scheduler_add L S mw)) = jobs S @
        [(start_job_id L mw, \<lparr>func = Start_mw mw, run_date = mw_start mw\<rparr>)] \<or>
     \<not> has_job S (end_job_id L mw) \<and>
     jobs (snd (Scheduler_add L S mw)) = jobs S @
        [(start_job_id L mw, \<lparr>func = Start_mw mw, run_date = mw_start mw\<rparr>),
         (end_job_id L mw, \<lparr>func = End_mw mw, run_date = mw_end mw\<rparr>)]))"
proof (cases "has_job S (start_job_id L mw)")
  case True
  then show ?thesis by (simp add: Scheduler_add_start_conflict)
next
  case False
  then show ?thesis
    by (cases "has_job S (end_job_id L mw)")
      (simp_all add: Scheduler_add_end_conflict Scheduler_add_fresh)
qed

lemma Scheduler_add_distinct:
  "distinct (map fst (jobs S)) \<Longrightarrow> distinct (map fst (jobs (snd (Scheduler_add L S mw))))"
  using Scheduler_add_cases [of L S mw] job_ids_differ [of L mw]
  by (auto simp: has_job_def)

lemma Scheduler_add_keeps:
  assumes "has_job S n"
  shows "map_of (jobs (snd (Scheduler_add L S mw))) n = map_of (jobs S) n"
proof -
  from assms have "map_of (jobs S) n \<noteq> None"
    by (simp add: has_job_def map_of_eq_None_iff)
  then obtain x where "map_of (jobs S) n = Some x" by auto
  then show ?thesis
    using Scheduler_add_cases [of L S mw] by (auto simp: map_add_def)
qed

text \<open>
  Claim C7, as amended. For every scheduler and window, \<^verbatim>\<open>Scheduler.add\<close> registers
  the two jobs, with the window's start and end as run dates, when neither name is in the
  scheduler. When \<^verbatim>\<open>{id}-start\<close> is there it raises ConflictingIdError and leaves the
  scheduler as it was; when \<^verbatim>\<open>{id}-end\<close> alone is there it raises ConflictingIdError
  too. A job that is in the scheduler is never replaced, and a scheduler with at most one
  job per name stays so.
\<close>

theorem Scheduler_add_registers:
  "(\<not> has_job S (start_job_id L mw) \<longrightarrow> \<not> has_job S (end_job_id L mw) \<longrightarrow>
      Scheduler_add L S mw =
        (None, S\<lparr>jobs := jobs S @
           [(start_job_id L mw, \<lparr>func = Start_mw mw, run_date = mw_start mw\<rparr>),
            (end_job_id L mw, \<lparr>func = End_mw mw, run_date = mw_end mw\<rparr>)]\<rparr>)) \<and>
   (has_job S (start_job_id L mw) \<longrightarrow>
      Scheduler_add L S mw = (Some (ConflictingIdError (start_job_id L mw)), S)) \<and>
   (\<not> has_job S (start_job_id L mw) \<longrightarrow> has_job S (end_job_id L mw) \<longrightarrow>
      fst (Scheduler_add L S mw) = Some (ConflictingIdError (end_job_id L mw))) \<and>
   (has_job S n \<longrightarrow> map_of (jobs (snd (Scheduler_add L S mw))) n = map_of (jobs S) n) \<and>
   (distinct (map fst (jobs S)) \<longrightarrow>
      distinct (map fst (jobs (snd (Scheduler_add L S mw)))))"
  by (simp add: Scheduler_add_fresh Scheduler_add_start_conflict Scheduler_add_end_conflict
      Scheduler_add_keeps Scheduler_add_distinct)

theorem Scheduler_add_registers_witness:
  "\<not> has_job new_scheduler (start_job_id ref_library ref_window) \<and>
   \<not> has_job new_scheduler (end_job_id ref_library ref_window) \<and>
   distinct (map fst (jobs new_scheduler)) \<and>
   map fst (jobs (snd (Scheduler_add ref_library new_scheduler ref_window))) =
     [''mw1-start'', ''mw1-end''] \<and>
   has_job (snd (Scheduler_add ref_library new_scheduler ref_window))
     (start_job_id ref_library ref_window) \<and>
   fst (Scheduler_add ref_library (snd (Scheduler_add ref_library new_scheduler ref_window))
     ref_window) = Some (ConflictingIdError ''mw1-start'')"
  using Scheduler_add_registers [of new_scheduler ref_library ref_window "''mw1-start''"]
    Scheduler_add_registers [of "snd (Scheduler_add ref_library new_scheduler ref_window)"
      ref_library ref_window "''mw1-start''"]
  by (simp add: sched_defs ref_window_fields)

text \<open>
  The claim as it was stated fails at the second call for one window: the first
  registers the two jobs, the second raises ConflictingIdError and changes nothing.
\<close>

theorem Scheduler_add_twice_fails:
  "Scheduler_add ref_library new_scheduler ref_window =
     (None, \<lparr> jobs = [(''mw1-start'', \<lparr>func = Start_mw ref_window, run_date = t_0000\<rparr>),
                       (''mw1-end'', \<lparr>func = End_mw ref_window, run_date = t_0600\<rparr>)],
              log_info = [] \<rparr>) \<and>
   Scheduler_add ref_library (snd (Scheduler_add ref_library new_scheduler ref_window))
       ref_window =
     (Some (ConflictingIdError ''mw1-start''),
      snd (Scheduler_add ref_library new_scheduler ref_window))"
  by (simp add: sched_defs ref_window_fields)

end
